theory Spec2Isabelle
  imports Main "HOL-Library.Char_ord" "HOL-Library.List_Lexorder" "HOL-Library.AList"
begin

section \<open>Python values, truthiness and exceptions\<close>

text \<open>
  The controllers' decorators and the configuration steps are Python. Values that the
  code only stores, compares or tests for truth are modelled by \<open>pyval\<close>; a dictionary
  is an association list with distinct keys (\<open>AList.update\<close> replaces the value of a
  key that is present and appends a new key otherwise). \<open>PObj\<close> is a reference to an
  object the code treats as opaque (a schema, a callable, a widget); such an object is
  true in a boolean context. Strings are byte strings, ordered as Python orders them
  (lexicographically by character code).
\<close>

datatype pyval =
    PNone
  | PBool bool
  | PInt int
  | PStr string
  | PList "pyval list"
  | PDict "(string \<times> pyval) list"
  | PObj nat

fun truthy :: "pyval \<Rightarrow> bool" where
  "truthy PNone = False"
| "truthy (PBool b) = b"
| "truthy (PInt n) = (n \<noteq> 0)"
| "truthy (PStr s) = (s \<noteq> [])"
| "truthy (PList xs) = (xs \<noteq> [])"
| "truthy (PDict kvs) = (kvs \<noteq> [])"
| "truthy (PObj a) = True"

datatype exn =
    KeyError
  | ValueError
  | TypeError
  | AttributeError
  | TGConfigError
  | HTTPException int string
  | OtherError string

text \<open>A function object is identified by a number; two numbers are two objects.\<close>

type_synonym func = nat

section \<open>Decoration: the per-controller registry (tg/decorators.py)\<close>

text \<open>
  \<open>validate\<close> objects are stored in a Decoration. The attribute \<open>validators\<close> is
  assigned only under a condition, so it is optional: \<open>None\<close> is an object without
  the attribute.
\<close>

record validate =
  validators :: "pyval option"
  validate_error_handler :: "func option"

type_synonym engine_entry = "pyval \<times> pyval \<times> pyval"

record Decoration =
  controller :: func
  engines :: "(string \<times> engine_entry) list"
  engines_keys :: "string list"
  default_engine :: "string option"
  custom_engines :: "(string \<times> string \<times> pyval \<times> pyval \<times> pyval) list"
  render_custom_format :: "string option"
  validation :: "validate option"
  error_handler :: "func option"
  hooks :: "(string \<times> func list) list"

definition Decoration_init :: "func \<Rightarrow> Decoration" where
  "Decoration_init c =
     \<lparr> controller = c,
       engines = [],
       engines_keys = [],
       default_engine = None,
       custom_engines = [],
       render_custom_format = None,
       validation = None,
       error_handler = None,
       hooks = [(''before_validate'', []), (''before_call'', []),
                (''before_render'', []), (''after_render'', [])] \<rparr>"

definition exposed :: "Decoration \<Rightarrow> bool" where
  "exposed self \<longleftrightarrow> engines self \<noteq> [] \<or> custom_engines self \<noteq> []"

text \<open>
  \<open>register_template_engine\<close>: a missing content type is \<open>*/*\<close>; the entry is stored
  under the content type; \<open>default_engine\<close> is the content type when the dictionary
  then has one entry and \<open>None\<close> otherwise; \<open>engines_keys\<close> is
  \<open>sorted(self.engines.keys(), reverse=True)\<close>.
\<close>

definition register_template_engine ::
  "Decoration \<Rightarrow> string option \<Rightarrow> pyval \<Rightarrow> pyval \<Rightarrow> pyval \<Rightarrow> Decoration" where
  "register_template_engine self content_type engine template exclude_names =
     (let content_type = (case content_type of None \<Rightarrow> ''*/*'' | Some c \<Rightarrow> c);
          engines' = AList.update content_type (engine, template, exclude_names) (engines self)
      in self\<lparr> engines := engines',
               default_engine := (if length engines' = 1 then Some content_type else None),
               engines_keys := rev (sort (map fst engines')) \<rparr>)"

definition register_custom_template_engine ::
  "Decoration \<Rightarrow> string \<Rightarrow> string option \<Rightarrow> pyval \<Rightarrow> pyval \<Rightarrow> pyval \<Rightarrow> Decoration" where
  "register_custom_template_engine self custom_format content_type engine template exclude_names =
     (let content_type = (case content_type of None \<Rightarrow> ''*/*'' | Some c \<Rightarrow> c)
      in self\<lparr> custom_engines :=
                 AList.update custom_format (content_type, engine, template, exclude_names)
                   (custom_engines self) \<rparr>)"

text \<open>
  A registration request is the argument tuple of one \<open>register_template_engine\<close>
  call; \<open>register_all\<close> performs the calls of a list in order.
\<close>

type_synonym registration = "string option \<times> pyval \<times> pyval \<times> pyval"

fun register_all :: "Decoration \<Rightarrow> registration list \<Rightarrow> Decoration" where
  "register_all d [] = d"
| "register_all d ((ct, e, t, x) # rs) = register_all (register_template_engine d ct e t x) rs"

definition key_of :: "string option \<Rightarrow> string" where
  "key_of ct = (case ct of None \<Rightarrow> ''*/*'' | Some c \<Rightarrow> c)"

subsection \<open>Hooks\<close>

text \<open>
  \<open>register_hook\<close> appends to the list stored under the hook name; a name that is
  not a key of \<open>self.hooks\<close> raises KeyError.
\<close>

definition register_hook :: "Decoration \<Rightarrow> string \<Rightarrow> func \<Rightarrow> exn + Decoration" where
  "register_hook self hook_name f =
     (case map_of (hooks self) hook_name of
        None \<Rightarrow> Inl KeyError
      | Some fs \<Rightarrow> Inr (self\<lparr> hooks := AList.update hook_name (fs @ [f]) (hooks self) \<rparr>))"

text \<open>
  \<open>register_hooks\<close> performs the \<open>register_hook\<close> calls of a list in order and
  stops at the first that raises.
\<close>

fun register_hooks :: "Decoration \<Rightarrow> (string \<times> func) list \<Rightarrow> exn + Decoration" where
  "register_hooks d [] = Inr d"
| "register_hooks d ((n, f) # rs) =
     (case register_hook d n f of Inl e \<Rightarrow> Inl e | Inr d' \<Rightarrow> register_hooks d' rs)"

text \<open>
  Calling a hook function is an effect on the rest of the system, the world \<open>'w\<close>:
  \<open>call f args w\<close> is the exception the call raised, if any, and the world it left.
  A run records every invocation, with its arguments, in a trace.
  \<open>call_funcs\<close> is the loop \<open>for func in fs: func(*l, **kw)\<close>: an exception ends it.
\<close>

type_synonym ('a, 'w) run = "exn option \<times> (func \<times> 'a) list \<times> 'w"

fun call_funcs ::
  "(func \<Rightarrow> 'a \<Rightarrow> 'w \<Rightarrow> exn option \<times> 'w) \<Rightarrow> func list \<Rightarrow> 'a \<Rightarrow> (func \<times> 'a) list \<Rightarrow> 'w \<Rightarrow> ('a, 'w) run" where
  "call_funcs call [] args tr w = (None, tr, w)"
| "call_funcs call (f # fs) args tr w =
     (case call f args w of
        (Some e, w') \<Rightarrow> (Some e, tr @ [(f, args)], w')
      | (None, w') \<Rightarrow> call_funcs call fs args (tr @ [(f, args)]) w')"

section \<open>The request-local objects\<close>

text \<open>
  \<open>request.paginators\<close> is a dictionary with the entry \<open>_tg_paginators_params\<close> (a
  dictionary of the raw page parameters) and one \<open>Bunch\<close> per paginated collection.
  The attributes of a Bunch are set one at a time, so each is optional. The name of a
  collection is taken to differ from the reserved key \<open>_tg_paginators_params\<close>.
\<close>

record Bunch =
  paginate_page :: "int option"
  paginate_items_per_page :: "int option"
  paginate_params :: "(string \<times> pyval) list option"

record paginators_data =
  tg_paginators_params :: "(string \<times> pyval) list"
  bunches :: "(string \<times> Bunch) list"

record request =
  environ :: "string \<rightharpoonup> pyval"
  response_type :: "string option"
  request_headers :: "string \<rightharpoonup> string"
  request_render_custom_format :: "(func \<rightharpoonup> string) option"
  request_override_mapping :: "(func \<rightharpoonup> (string \<rightharpoonup> pyval list)) option"
  paginators :: "paginators_data option"

record response =
  status_int :: int
  response_headers :: "string \<rightharpoonup> string"

text \<open>
  \<open>tgl\<close> holds the configuration and the current request and response.
  \<open>config_hooks\<close> is \<open>tgl.config['hooks']\<close>, \<open>None\<close> when the configuration has no
  such key.
\<close>

record tgl =
  config_hooks :: "(string \<rightharpoonup> func list) option"
  request :: request
  response :: response

text \<open>
  \<open>run_hooks\<close>: the system-wide hooks run inside \<open>try ... except KeyError: pass\<close>,
  so a missing key skips them, and a KeyError raised by one of them is swallowed as
  well and ends that loop; then the controller's own hooks run.
\<close>

definition run_hooks ::
  "Decoration \<Rightarrow> tgl \<Rightarrow> (func \<Rightarrow> 'a \<Rightarrow> 'w \<Rightarrow> exn option \<times> 'w) \<Rightarrow> string \<Rightarrow> 'a \<Rightarrow> 'w \<Rightarrow> ('a, 'w) run" where
  "run_hooks self g call hook args w =
     (let syswide =
            (case config_hooks g of
               None \<Rightarrow> (None, [], w)
             | Some hs \<Rightarrow>
                 (case hs hook of
                    None \<Rightarrow> (None, [], w)
                  | Some syswide_hooks \<Rightarrow>
                      (case call_funcs call syswide_hooks args [] w of
                         (Some KeyError, tr, w') \<Rightarrow> (None, tr, w')
                       | r \<Rightarrow> r)))
      in case syswide of
           (Some e, tr, w') \<Rightarrow> (Some e, tr, w')
         | (None, tr, w') \<Rightarrow>
             (case map_of (hooks self) hook of
                None \<Rightarrow> (Some KeyError, tr, w')
              | Some fs \<Rightarrow> call_funcs call fs args tr w'))"

subsection \<open>Template engine lookup\<close>

definition startswith :: "string \<Rightarrow> string \<Rightarrow> bool" where
  "startswith s p \<longleftrightarrow> take (length p) s = p"

fun str_contains :: "string \<Rightarrow> string \<Rightarrow> bool" where
  "str_contains [] p = (p = [])"
| "str_contains (c # cs) p = (take (length p) (c # cs) = p \<or> str_contains cs p)"

text \<open>\<open>s.split(';')[0]\<close>: the part of \<open>s\<close> before its first semicolon.\<close>

definition split_semicolon :: "string \<Rightarrow> string" where
  "split_semicolon s = takeWhile (\<lambda>c. c \<noteq> CHR '';'') s"

definition add_charset :: "string \<Rightarrow> string" where
  "add_charset content_type =
     (if \<not> str_contains content_type ''charset'' \<and>
         (startswith content_type ''text'' \<or>
          content_type \<in> set [''application/xhtml+xml'', ''application/xml'', ''application/json''])
      then content_type @ ''; charset=utf-8''
      else content_type)"

definition accept_types :: "Decoration \<Rightarrow> request \<Rightarrow> string" where
  "accept_types self req =
     (case response_type req of
        Some rt \<Rightarrow>
          if rt \<noteq> [] \<and> map_of (engines self) rt \<noteq> None then rt
          else (case request_headers req ''accept'' of Some a \<Rightarrow> a | None \<Rightarrow> ''*/*'')
      | None \<Rightarrow> (case request_headers req ''accept'' of Some a \<Rightarrow> a | None \<Rightarrow> ''*/*''))"

text \<open>
  \<open>request._render_custom_format[self.controller]\<close>, and the Decoration's own
  \<open>render_custom_format\<close> when that lookup raises.
\<close>

definition active_custom_format :: "Decoration \<Rightarrow> request \<Rightarrow> string option" where
  "active_custom_format self req =
     (case request_render_custom_format req of
        None \<Rightarrow> render_custom_format self
      | Some m \<Rightarrow> (case m (controller self) of None \<Rightarrow> render_custom_format self | Some f \<Rightarrow> Some f))"

text \<open>The content type chosen from the registry, before any override.\<close>

definition registry_content_type ::
  "(string list \<Rightarrow> string \<Rightarrow> string) \<Rightarrow> Decoration \<Rightarrow> request \<Rightarrow> string" where
  "registry_content_type best_match self req =
     (if default_engine self \<noteq> None \<and> default_engine self \<noteq> Some []
      then the (default_engine self)
      else if engines self \<noteq> [] then best_match (engines_keys self) (accept_types self req)
      else ''text/html'')"

definition override_lookup :: "Decoration \<Rightarrow> request \<Rightarrow> string \<Rightarrow> pyval list option" where
  "override_lookup self req content_type =
     (case request_override_mapping req of
        None \<Rightarrow> None
      | Some m \<Rightarrow>
          (case m (controller self) of
             None \<Rightarrow> None
           | Some cnt_override_mapping \<Rightarrow> cnt_override_mapping (split_semicolon content_type)))"

text \<open>
  \<open>lookup_template_engine\<close>. \<open>best_match\<close> is \<open>paste.util.mimeparse.best_match\<close>,
  a function of the supported types and the Accept header, taken as a parameter.
\<close>

definition lookup_template_engine ::
  "(string list \<Rightarrow> string \<Rightarrow> string) \<Rightarrow> Decoration \<Rightarrow> tgl \<Rightarrow>
     exn + (string \<times> pyval \<times> pyval \<times> pyval)" where
  "lookup_template_engine best_match self g =
     (let req = request g; resp = response g;
          custom = active_custom_format self req
      in if custom \<noteq> None \<and> custom \<noteq> Some []
         then (case map_of (custom_engines self) (the custom) of
                 None \<Rightarrow> Inl KeyError
               | Some (content_type, engine, template, exclude_names) \<Rightarrow>
                   Inr (add_charset content_type, engine, template, exclude_names))
         else
           (let content_type = registry_content_type best_match self req;
                content_type =
                  (case response_headers resp ''Content-Type'' of
                     Some controller_content_type \<Rightarrow> split_semicolon controller_content_type
                   | None \<Rightarrow> content_type)
            in case override_lookup self req content_type of
                 Some tmpl \<Rightarrow>
                   (case tmpl of
                      [engine, template, exclude_names] \<Rightarrow>
                        Inr (add_charset content_type, engine, template, exclude_names)
                    | _ \<Rightarrow> Inl ValueError)
               | None \<Rightarrow>
                   (case map_of (engines self) content_type of
                      Some (engine, template, exclude_names) \<Rightarrow>
                        Inr (add_charset content_type, engine, template, exclude_names)
                    | None \<Rightarrow> Inr (add_charset content_type, PNone, PNone, PNone))))"

subsection \<open>The decoration attribute of function objects\<close>

text \<open>
  \<open>get_decoration\<close> reads and writes the attribute \<open>decoration\<close> of a function
  object, and Decoration objects are mutable and shared by reference. The heap holds
  the Decoration objects, the address of one being its index, and for each function
  the address its attribute refers to.
\<close>

record heap =
  decoration_attr :: "func \<rightharpoonup> nat"
  objects :: "Decoration list"

definition empty_heap :: heap where
  "empty_heap = \<lparr> decoration_attr = Map.empty, objects = [] \<rparr>"

definition get_decoration :: "func \<Rightarrow> heap \<Rightarrow> nat \<times> heap" where
  "get_decoration f h =
     (case decoration_attr h f of
        Some dec \<Rightarrow> (dec, h)
      | None \<Rightarrow>
          (let dec = length (objects h)
           in (dec, h\<lparr> objects := objects h @ [Decoration_init f],
                       decoration_attr := (decoration_attr h)(f \<mapsto> dec) \<rparr>)))"

text \<open>The Decoration a function's attribute refers to, if it has the attribute.\<close>

definition decoration_of :: "heap \<Rightarrow> func \<Rightarrow> Decoration option" where
  "decoration_of h f =
     (case decoration_attr h f of
        None \<Rightarrow> None
      | Some a \<Rightarrow> if a < length (objects h) then Some (objects h ! a) else None)"

definition store :: "nat \<Rightarrow> Decoration \<Rightarrow> heap \<Rightarrow> heap" where
  "store a d h = h\<lparr> objects := (objects h)[a := d] \<rparr>"

text \<open>The hook decorators (\<open>before_validate\<close>, \<open>before_call\<close>, ...) applied to a function.\<close>

record hook_decorator =
  hook_name :: "string option"
  hook_func :: func

definition hook_decorator_call :: "hook_decorator \<Rightarrow> func \<Rightarrow> heap \<Rightarrow> (exn + func) \<times> heap" where
  "hook_decorator_call self f h =
     (let (deco, h1) = get_decoration f h
      in case hook_name self of
           None \<Rightarrow> (Inl KeyError, h1)
         | Some n \<Rightarrow>
             (case register_hook (objects h1 ! deco) n (hook_func self) of
                Inl e \<Rightarrow> (Inl e, h1)
              | Inr d \<Rightarrow> (Inr f, store deco d h1)))"

text \<open>\<open>expose.__call__\<close>, on an \<open>expose\<close> object as its constructor left it.\<close>

record expose =
  expose_engine :: pyval
  expose_template :: pyval
  expose_content_type :: "string option"
  expose_exclude_names :: pyval
  expose_custom_format :: "string option"

definition expose_call :: "expose \<Rightarrow> func \<Rightarrow> heap \<Rightarrow> func \<times> heap" where
  "expose_call self f h =
     (let (deco, h1) = get_decoration f h;
          d = objects h1 ! deco
      in if expose_custom_format self \<noteq> None \<and> expose_custom_format self \<noteq> Some []
         then (f, store deco
                 (register_custom_template_engine d (the (expose_custom_format self))
                    (expose_content_type self) (expose_engine self) (expose_template self)
                    (expose_exclude_names self)) h1)
         else (f, store deco
                 (register_template_engine d (expose_content_type self) (expose_engine self)
                    (expose_template self) (expose_exclude_names self)) h1))"

subsection \<open>validate\<close>

text \<open>
  \<open>validate.__init__\<close> assigns \<open>self.validators\<close> only when \<open>form\<close> or \<open>validators\<close>
  is true; an argument left out is \<open>PNone\<close>.
\<close>

definition validate_init :: "pyval \<Rightarrow> func option \<Rightarrow> pyval \<Rightarrow> validate" where
  "validate_init validators_arg error_handler_arg form =
     (let v0 = None;
          v1 = (if truthy form then Some form else v0);
          v2 = (if truthy validators_arg then Some validators_arg else v1)
      in \<lparr> validators = v2, validate_error_handler = error_handler_arg \<rparr>)"

definition validate_call :: "validate \<Rightarrow> func \<Rightarrow> heap \<Rightarrow> func \<times> heap" where
  "validate_call self f h =
     (let (deco, h1) = get_decoration f h
      in (f, store deco ((objects h1 ! deco)\<lparr> validation := Some self \<rparr>) h1))"

subsection \<open>paginate\<close>

record paginate =
  paginate_name :: string
  page_param :: string
  items_per_page_param :: string
  items_per_page :: int
  max_items_per_page :: int

definition paginate_init :: "string \<Rightarrow> bool \<Rightarrow> int \<Rightarrow> int \<Rightarrow> paginate" where
  "paginate_init name use_prefix ipp max_ipp =
     (let prefix = (if use_prefix then name @ ''_'' else [])
      in \<lparr> paginate_name = name,
           page_param = prefix @ ''page'',
           items_per_page_param = prefix @ ''items_per_page'',
           items_per_page = ipp,
           max_items_per_page = max_ipp \<rparr>)"

text \<open>
  The builtin \<open>int\<close>. On a string it parses, or raises ValueError: \<open>parse\<close> is that
  function of the string, \<open>None\<close> for ValueError. On \<open>None\<close>, a list, a dictionary or
  an object without \<open>__int__\<close> it raises TypeError.
\<close>

definition py_int :: "(string \<Rightarrow> int option) \<Rightarrow> pyval \<Rightarrow> exn + int" where
  "py_int parse v =
     (case v of
        PStr s \<Rightarrow> (case parse s of None \<Rightarrow> Inl ValueError | Some n \<Rightarrow> Inr n)
      | PInt n \<Rightarrow> Inr n
      | PBool b \<Rightarrow> Inr (if b then 1 else 0)
      | _ \<Rightarrow> Inl TypeError)"

text \<open>\<open>d.pop(k, None)\<close> is \<open>dict_get d k\<close> and the dictionary \<open>AList.delete k d\<close>.\<close>

definition dict_get :: "(string \<times> pyval) list \<Rightarrow> string \<Rightarrow> pyval" where
  "dict_get d k = (case map_of d k of None \<Rightarrow> PNone | Some v \<Rightarrow> v)"

definition dict_update :: "(string \<times> 'v) list \<Rightarrow> (string \<times> 'v) list \<Rightarrow> (string \<times> 'v) list" where
  "dict_update d other = fold (\<lambda>kv. AList.update (fst kv) (snd kv)) other d"

text \<open>
  The page number read from the raw parameter: the \<open>try\<close> block catches ValueError
  only, so any other exception of \<open>int\<close> leaves the function.
\<close>

definition read_page :: "(string \<Rightarrow> int option) \<Rightarrow> pyval \<Rightarrow> exn + int" where
  "read_page parse v =
     (if truthy v
      then (case py_int parse v of
              Inr page \<Rightarrow> if page < 1 then Inr 1 else Inr page
            | Inl ValueError \<Rightarrow> Inr 1
            | Inl e \<Rightarrow> Inl e)
      else Inr 1)"

definition read_items_per_page :: "(string \<Rightarrow> int option) \<Rightarrow> paginate \<Rightarrow> pyval \<Rightarrow> exn + int" where
  "read_items_per_page parse self v =
     (if truthy v
      then (case py_int parse v of
              Inr n \<Rightarrow>
                (let m = min n (max_items_per_page self)
                 in if m < 1 then Inr (items_per_page self) else Inr m)
            | Inl ValueError \<Rightarrow> Inr (items_per_page self)
            | Inl e \<Rightarrow> Inl e)
      else Inr (items_per_page self))"

text \<open>
  \<open>paginate.before_validate\<close>. It mutates \<open>params\<close> and \<open>request.paginators\<close>; the
  result is the exception raised, if any, with both as the call left them.
\<close>

definition before_validate ::
  "(string \<Rightarrow> int option) \<Rightarrow> paginate \<Rightarrow> (string \<times> pyval) list \<Rightarrow> request \<Rightarrow>
     exn option \<times> (string \<times> pyval) list \<times> request" where
  "before_validate parse self params req =
     (let page_param_v = dict_get params (page_param self);
          params1 = AList.delete (page_param self) params
      in case read_page parse page_param_v of
           Inl e \<Rightarrow> (Some e, params1, req)
         | Inr page \<Rightarrow>
             (let pd0 = (case paginators req of
                           Some pd \<Rightarrow> pd
                         | None \<Rightarrow> \<lparr> tg_paginators_params = [], bunches = [] \<rparr>);
                  pd1 = pd0\<lparr> tg_paginators_params :=
                               AList.update (page_param self) page_param_v (tg_paginators_params pd0) \<rparr>;
                  paginator1 = \<lparr> paginate_page = Some (if page = 0 then 1 else page),
                                 paginate_items_per_page = None,
                                 paginate_params = None \<rparr>;
                  items_v = dict_get params1 (items_per_page_param self);
                  params2 = AList.delete (items_per_page_param self) params1
              in case read_items_per_page parse self items_v of
                   Inl e \<Rightarrow>
                     (Some e, params2,
                      req\<lparr> paginators :=
                             Some (pd1\<lparr> bunches := AList.update (paginate_name self) paginator1 (bunches pd1) \<rparr>) \<rparr>)
                 | Inr ipp \<Rightarrow>
                     (let pp = dict_update params2 (tg_paginators_params pd1);
                          pp' = (if ipp \<noteq> items_per_page self
                                 then AList.update (items_per_page_param self) (PInt ipp) pp
                                 else pp);
                          paginator2 = paginator1\<lparr> paginate_items_per_page := Some ipp,
                                                    paginate_params := Some pp' \<rparr>
                      in (None, params2,
                          req\<lparr> paginators :=
                                 Some (pd1\<lparr> bunches := AList.update (paginate_name self) paginator2 (bunches pd1) \<rparr>) \<rparr>))))"

text \<open>The paginator stored for a collection after a call.\<close>

definition paginator_of :: "request \<Rightarrow> string \<Rightarrow> Bunch option" where
  "paginator_of req name =
     (case paginators req of None \<Rightarrow> None | Some pd \<Rightarrow> map_of (bunches pd) name)"

subsection \<open>require: authorization\<close>

text \<open>
  \<open>predicate.check_authorization(environ)\<close> returns, raises NotAuthorizedError with a
  message, or raises something else.
\<close>

datatype check_result = Authorized | NotAuthorizedError string | CheckRaised exn

datatype 'r outcome = Returned 'r | Raised exn

record 'r require =
  predicate :: "(string \<rightharpoonup> pyval) \<Rightarrow> check_result"
  denial_handler :: "(string \<Rightarrow> tgl \<Rightarrow> 'r outcome \<times> tgl) option"

text \<open>
  Modelled from the spec: \<open>tg.controllers.util.abort\<close> is not among the sources. It is
  the framework's abort primitive: it raises the HTTP error of the status code, with
  the comment, and never returns.
\<close>

definition abort :: "int \<Rightarrow> string \<Rightarrow> tgl \<Rightarrow> 'r outcome \<times> tgl" where
  "abort code comment g = (Raised (HTTPException code comment), g)"

definition environ_get :: "(string \<rightharpoonup> pyval) \<Rightarrow> string \<Rightarrow> pyval" where
  "environ_get env k = (case env k of None \<Rightarrow> PNone | Some v \<Rightarrow> v)"

definition denial_code :: "(string \<rightharpoonup> pyval) \<Rightarrow> int" where
  "denial_code env = (if truthy (environ_get env ''repoze.who.identity'') then 403 else 401)"

definition wrap_action ::
  "'r require \<Rightarrow> ('a \<Rightarrow> tgl \<Rightarrow> 'r outcome \<times> tgl) \<Rightarrow> 'a \<Rightarrow> tgl \<Rightarrow> 'r outcome \<times> tgl" where
  "wrap_action self action args g =
     (case predicate self (environ (request g)) of
        NotAuthorizedError reason \<Rightarrow>
          (let code = denial_code (environ (request g))
           in case denial_handler self of
                Some handler \<Rightarrow> handler reason (g\<lparr> response := (response g)\<lparr> status_int := code \<rparr> \<rparr>)
              | None \<Rightarrow> abort code reason g)
      | CheckRaised e \<Rightarrow> (Raised e, g)
      | Authorized \<Rightarrow> action args g)"

text \<open>
  \<open>require.default_denial_handler\<close>; \<open>flash\<close> is \<open>tg.flash.flash\<close>, a parameter.
  \<open>require_init\<close> is the constructor: \<open>denial_handler or self.default_denial_handler\<close>.
\<close>

definition default_denial_handler ::
  "(string \<Rightarrow> string \<Rightarrow> tgl \<Rightarrow> tgl) \<Rightarrow> string \<Rightarrow> tgl \<Rightarrow> 'r outcome \<times> tgl" where
  "default_denial_handler flash reason g =
     (let status = (if status_int (response g) = 401 then ''warning'' else ''error'');
          g1 = flash reason status g
      in abort (status_int (response g1)) reason g1)"

definition require_init ::
  "(string \<Rightarrow> string \<Rightarrow> tgl \<Rightarrow> tgl) \<Rightarrow> ((string \<rightharpoonup> pyval) \<Rightarrow> check_result) \<Rightarrow>
     (string \<Rightarrow> tgl \<Rightarrow> 'r outcome \<times> tgl) option \<Rightarrow> 'r require" where
  "require_init flash p handler =
     \<lparr> predicate = p,
       denial_handler = (case handler of
                           Some h \<Rightarrow> Some h
                         | None \<Rightarrow> Some (default_denial_handler flash)) \<rparr>"

text \<open>
  \<open>require.__call__\<close> returns \<open>decorator(self.wrap_action, action_)\<close>, a new
  function object built by the third-party \<open>decorator\<close> library. The library is a
  parameter: \<open>decorator f h\<close> is the new function object for \<open>f\<close> and the heap
  with it.
\<close>

definition require_call ::
  "(func \<Rightarrow> heap \<Rightarrow> func \<times> heap) \<Rightarrow> 'r require \<Rightarrow> func \<Rightarrow> heap \<Rightarrow> func \<times> heap" where
  "require_call decorator self action h = decorator action h"

section \<open>Configuration steps\<close>

type_synonym conf = "string \<rightharpoonup> pyval"

definition conf_get :: "conf \<Rightarrow> string \<Rightarrow> pyval \<Rightarrow> pyval" where
  "conf_get c k dflt = (case c k of None \<Rightarrow> dflt | Some v \<Rightarrow> v)"

text \<open>
  Iterating a value: the elements of a list, the keys of a dictionary, the
  characters of a string; anything else is not iterable.
\<close>

definition py_iter :: "pyval \<Rightarrow> exn + pyval list" where
  "py_iter v =
     (case v of
        PList xs \<Rightarrow> Inr xs
      | PDict kvs \<Rightarrow> Inr (map (\<lambda>kv. PStr (fst kv)) kvs)
      | PStr s \<Rightarrow> Inr (map (\<lambda>c. PStr [c]) s)
      | _ \<Rightarrow> Inl TypeError)"

subsection \<open>Error pages (steps/error\_pages.py)\<close>

definition error_pages_get_defaults :: "(string \<times> pyval) list" where
  "error_pages_get_defaults =
     [(''errorpage.enabled'', PBool True),
      (''errorpage.status_codes'', PList [PInt 403, PInt 404])]"

text \<open>\<open>n == v\<close> for an integer \<open>n\<close>: Python's \<open>True\<close> and \<open>False\<close> equal 1 and 0.\<close>

fun eq_int :: "int \<Rightarrow> pyval \<Rightarrow> bool" where
  "eq_int n (PInt m) = (n = m)"
| "eq_int n (PBool b) = (n = (if b then 1 else 0))"
| "eq_int n _ = False"

text \<open>
  \<open>n in v\<close> for an integer \<open>n\<close>: membership in a list, never a key of a dictionary
  (the keys are strings); on a string or a value that is not iterable, TypeError.
\<close>

definition int_in :: "int \<Rightarrow> pyval \<Rightarrow> exn + bool" where
  "int_in n v =
     (case v of
        PList xs \<Rightarrow> Inr (list_ex (eq_int n) xs)
      | PDict kvs \<Rightarrow> Inr False
      | _ \<Rightarrow> Inl TypeError)"

definition configure_error_pages :: "conf \<Rightarrow> exn + conf" where
  "configure_error_pages conf =
     (if conf_get conf ''auth_backend'' PNone = PNone
      then (case conf ''errorpage.status_codes'' of
              None \<Rightarrow> Inl KeyError
            | Some codes \<Rightarrow>
                (case int_in 401 codes of
                   Inl e \<Rightarrow> Inl e
                 | Inr True \<Rightarrow> Inr conf
                 | Inr False \<Rightarrow>
                     (case py_iter codes of
                        Inl e \<Rightarrow> Inl e
                      | Inr xs \<Rightarrow> Inr (conf(''errorpage.status_codes'' \<mapsto> PList (xs @ [PInt 401]))))))
      else Inr conf)"

subsection \<open>ToscaWidgets2 (steps/toscawidgets2.py)\<close>

definition tw2_get_defaults :: "(string \<times> pyval) list" where
  "tw2_get_defaults = [(''tw2.enabled'', PBool False), (''custom_tw2_config'', PDict [])]"

definition tw2_configure :: "conf \<Rightarrow> conf" where
  "tw2_configure conf =
     (if truthy (conf_get conf ''prefer_toscawidgets2'' PNone) \<or>
         truthy (conf_get conf ''use_toscawidgets2'' PNone)
      then conf(''tw2.enabled'' \<mapsto> PBool True)
      else conf)"

fun hashable :: "pyval \<Rightarrow> bool" where
  "hashable (PList xs) = False"
| "hashable (PDict kvs) = False"
| "hashable v = True"

datatype 'app TwMiddleware = TwMiddleware 'app "(string \<times> pyval) list"

text \<open>
  \<open>_add_middleware\<close>. The elements of \<open>set(a) & set(b)\<close> are those of \<open>a\<close>, without
  repetition, that are in \<open>b\<close>; \<open>list\<close> of a set yields them in an order the
  interpreter chooses, which is the parameter \<open>set_order\<close>, a rearrangement of the
  list it is given. \<open>preferred\<close> is tw2's \<open>Config.preferred_rendering_engines\<close>, and
  \<open>ugettext\<close> and \<open>get_lang\<close> are the two callables put in the configuration; the
  renderer names are compared as values.
\<close>

text \<open>
  The last two lines, \<open>default_tw2_config.update(custom)\<close> and
  \<open>TwMiddleware(app, **default_tw2_config)\<close>. \<open>update\<close> takes a dictionary, or
  else iterates its argument and takes every item as a sequence of two elements, a
  key and a value: an item that is not iterable, or a key that is not hashable,
  raises TypeError, and an item of another length raises ValueError. The keyword
  call needs every key to be a string and raises TypeError otherwise.
\<close>

fun pair_of :: "pyval \<Rightarrow> exn + pyval \<times> pyval" where
  "pair_of (PList [k, v]) = Inr (k, v)"
| "pair_of (PList xs) = Inl ValueError"
| "pair_of (PStr [a, b]) = Inr (PStr [a], PStr [b])"
| "pair_of (PStr s) = Inl ValueError"
| "pair_of (PDict [kv1, kv2]) = Inr (PStr (fst kv1), PStr (fst kv2))"
| "pair_of (PDict kvs) = Inl ValueError"
| "pair_of v = Inl TypeError"

fun pairs_of :: "pyval list \<Rightarrow> exn + (pyval \<times> pyval) list" where
  "pairs_of [] = Inr []"
| "pairs_of (item # items) =
     (case pair_of item of
        Inl e \<Rightarrow> Inl e
      | Inr kv \<Rightarrow>
          if \<not> hashable (fst kv) then Inl TypeError
          else (case pairs_of items of Inl e \<Rightarrow> Inl e | Inr kvs \<Rightarrow> Inr (kv # kvs)))"

fun string_keys :: "(pyval \<times> pyval) list \<Rightarrow> (string \<times> pyval) list option" where
  "string_keys [] = Some []"
| "string_keys ((PStr k, v) # kvs) =
     (case string_keys kvs of None \<Rightarrow> None | Some rest \<Rightarrow> Some ((k, v) # rest))"
| "string_keys (kv # kvs) = None"

definition update_and_wrap :: "'app \<Rightarrow> (string \<times> pyval) list \<Rightarrow> pyval \<Rightarrow> exn + 'app TwMiddleware" where
  "update_and_wrap app default_tw2_config custom =
     (case custom of
        PDict kvs \<Rightarrow> Inr (TwMiddleware app (dict_update default_tw2_config kvs))
      | _ \<Rightarrow>
          (case py_iter custom of
             Inl e \<Rightarrow> Inl e
           | Inr items \<Rightarrow>
               (case pairs_of items of
                  Inl e \<Rightarrow> Inl e
                | Inr kvs \<Rightarrow>
                    (case string_keys kvs of
                       None \<Rightarrow> Inl TypeError
                     | Some custom_kvs \<Rightarrow>
                         Inr (TwMiddleware app (dict_update default_tw2_config custom_kvs))))))"

definition shared_engines_of :: "(pyval list \<Rightarrow> pyval list) \<Rightarrow> pyval list \<Rightarrow> pyval list \<Rightarrow> pyval list" where
  "shared_engines_of set_order preferred rs =
     set_order (filter (\<lambda>r. r \<in> set preferred) (remdups rs))"

definition add_middleware ::
  "(pyval list \<Rightarrow> pyval list) \<Rightarrow> pyval list \<Rightarrow> pyval \<Rightarrow> pyval \<Rightarrow> conf \<Rightarrow> 'app \<Rightarrow>
     exn + 'app TwMiddleware" where
  "add_middleware set_order preferred ugettext get_lang conf app =
     (case py_iter (conf_get conf ''renderers'' (PList [])) of
        Inl e \<Rightarrow> Inl e
      | Inr rs \<Rightarrow>
          if \<not> list_all hashable rs then Inl TypeError
          else
            (let shared_engines = shared_engines_of set_order preferred rs
             in if shared_engines = [] then Inl TGConfigError
                else
                  (let default_renderer = conf_get conf ''default_renderer'' PNone;
                       tw2_engines = (if default_renderer \<in> set shared_engines
                                      then default_renderer # shared_engines
                                      else shared_engines);
                       tw2_default_engine = (if default_renderer \<in> set shared_engines
                                             then default_renderer
                                             else hd shared_engines)
                   in case conf ''debug'' of
                        None \<Rightarrow> Inl KeyError
                      | Some debug \<Rightarrow>
                          (let default_tw2_config =
                                 [(''default_engine'', tw2_default_engine),
                                  (''preferred_rendering_engines'', PList tw2_engines),
                                  (''translator'', ugettext),
                                  (''get_lang'', get_lang),
                                  (''auto_reload_templates'',
                                     conf_get conf ''auto_reload_templates'' (PBool False)),
                                  (''controller_prefix'', PStr ''/tw2/controllers/''),
                                  (''res_prefix'', PStr ''/tw2/resources/''),
                                  (''debug'', debug),
                                  (''rendering_extension_lookup'',
                                     PDict [(''mako'', PList [PStr ''mak'', PStr ''mako'']),
                                            (''genshi'', PList [PStr ''genshi'', PStr ''html'']),
                                            (''jinja'', PList [PStr ''jinja'', PStr ''jinja2'']),
                                            (''kajiki'', PList [PStr ''kajiki'', PStr ''xhtml'', PStr ''xml''])])]
                           in update_and_wrap app default_tw2_config
                                (conf_get conf ''custom_tw2_config'' (PDict []))))))"

section \<open>Notions used to state the properties\<close>

text \<open>
  The entries a list of registrations asks for, each under the content type it is
  stored at (\<open>*/*\<close> for a missing one); the last entry of a content type in this
  list is the latest registration for it.
\<close>

definition registered :: "registration list \<Rightarrow> (string \<times> engine_entry) list" where
  "registered rs = map (\<lambda>r. (key_of (fst r), snd r)) rs"

text \<open>The state \<open>register_template_engine\<close> leaves the three fields in.\<close>

definition engines_inv :: "Decoration \<Rightarrow> bool" where
  "engines_inv d \<longleftrightarrow>
     distinct (map fst (engines d)) \<and>
     default_engine d = (if length (engines d) = 1 then Some (fst (hd (engines d))) else None) \<and>
     engines_keys d = rev (sort (map fst (engines d)))"

text \<open>
  The entry registered for a content type, and three \<open>None\<close>s when there is none.
\<close>

definition registered_entry :: "registration list \<Rightarrow> string \<Rightarrow> engine_entry" where
  "registered_entry rs ct =
     (case map_of (rev (registered rs)) ct of Some entry \<Rightarrow> entry | None \<Rightarrow> (PNone, PNone, PNone))"

text \<open>
  The request holds no template override for the controller: it has no
  \<open>_override_mapping\<close> attribute, or the mapping has no entry for the controller.
\<close>

definition no_template_override :: "request \<Rightarrow> func \<Rightarrow> bool" where
  "no_template_override req c =
     (case request_override_mapping req of None \<Rightarrow> True | Some m \<Rightarrow> m c = None)"

text \<open>
  Concrete values for the examples: a stand-in for \<open>best_match\<close> (the header when
  it is one of the supported types, and the first supported type otherwise), and a
  request and a \<open>tgl\<close> with nothing set.
\<close>

definition exact_or_first :: "string list \<Rightarrow> string \<Rightarrow> string" where
  "exact_or_first supported header =
     (if header \<in> set supported then header else case supported of [] \<Rightarrow> [] | s # _ \<Rightarrow> s)"

definition plain_request :: request where
  "plain_request =
     \<lparr> environ = Map.empty, response_type = None, request_headers = Map.empty,
       request_render_custom_format = None, request_override_mapping = None,
       paginators = None \<rparr>"

definition plain_tgl :: tgl where
  "plain_tgl =
     \<lparr> config_hooks = None, request = plain_request,
       response = \<lparr> status_int = 200, response_headers = Map.empty \<rparr> \<rparr>"

text \<open>
  The four hook names; the system-wide hook functions configured for a hook name (none
  when \<open>tgl.config\<close> has no \<open>hooks\<close> entry or that entry lacks the name); and the
  functions a list of \<open>register_hook\<close> calls registers for a hook name, in the order
  of the calls.
\<close>

definition core_hook_names :: "string list" where
  "core_hook_names = [''before_validate'', ''before_call'', ''before_render'', ''after_render'']"

definition syswide_hooks_of :: "tgl \<Rightarrow> string \<Rightarrow> func list" where
  "syswide_hooks_of g hook =
     (case config_hooks g of
        None \<Rightarrow> []
      | Some hs \<Rightarrow> (case hs hook of None \<Rightarrow> [] | Some fs \<Rightarrow> fs))"

definition registered_hooks :: "(string \<times> func) list \<Rightarrow> string \<Rightarrow> func list" where
  "registered_hooks regs hook = map snd (filter (\<lambda>r. fst r = hook) regs)"

text \<open>
  For the examples: a hook function that returns, and appends its own identity to the
  world, which is a list.
\<close>

definition logging_call :: "func \<Rightarrow> 'a \<Rightarrow> func list \<Rightarrow> exn option \<times> func list" where
  "logging_call f args w = (None, w @ [f])"

text \<open>The same, except that one function raises a given exception after logging.\<close>

definition raising_call :: "func \<Rightarrow> exn \<Rightarrow> func \<Rightarrow> 'a \<Rightarrow> func list \<Rightarrow> exn option \<times> func list" where
  "raising_call bad e f args w = (if f = bad then Some e else None, w @ [f])"

text \<open>
  A well-formed heap: every \<open>decoration\<close> attribute refers to an allocated object
  and no two functions refer to the same one. The empty heap is well formed and
  \<open>get_decoration\<close> and the decorators keep heaps so.
\<close>

definition heap_ok :: "heap \<Rightarrow> bool" where
  "heap_ok h \<longleftrightarrow>
     (\<forall>f a. decoration_attr h f = Some a \<longrightarrow> a < length (objects h)) \<and>
     (\<forall>f g a. decoration_attr h f = Some a \<and> decoration_attr h g = Some a \<longrightarrow> f = g)"

text \<open>
  For the examples: the object \<open>expose('json')\<close> is when \<open>json\<close> is one of the
  configured renderers. The constructor then takes \<open>json\<close> as the engine and leaves
  the empty string as template; with no content type given and the engine \<open>json\<close>
  the content type is \<open>application/json\<close>; and \<open>tmpl_context\<close> is appended to the
  empty list of excluded names.
\<close>

definition json_expose :: expose where
  "json_expose =
     \<lparr> expose_engine = PStr ''json'', expose_template = PStr [],
       expose_content_type = Some ''application/json'',
       expose_exclude_names = PList [PStr ''tmpl_context''], expose_custom_format = None \<rparr>"

text \<open>
  For the examples: the \<open>decorator\<close> library as it is documented. The function
  object it builds, here \<open>new\<close>, gets a copy of the attributes of the decorated
  function, so its \<open>decoration\<close> attribute refers to the same Decoration object.
\<close>

definition copying_decorator :: "func \<Rightarrow> func \<Rightarrow> heap \<Rightarrow> func \<times> heap" where
  "copying_decorator new f h =
     (new, h\<lparr> decoration_attr := (decoration_attr h)(new := decoration_attr h f) \<rparr>)"

text \<open>
  For the examples: a predicate that denies and one that grants, an action that
  returns its arguments, a denial handler that returns the reason, and a \<open>tgl\<close> whose
  request has a given environ.
\<close>

definition deny_all :: "(string \<rightharpoonup> pyval) \<Rightarrow> check_result" where
  "deny_all env = NotAuthorizedError ''denied''"

definition allow_all :: "(string \<rightharpoonup> pyval) \<Rightarrow> check_result" where
  "allow_all env = Authorized"

definition echo_action :: "string \<Rightarrow> tgl \<Rightarrow> string outcome \<times> tgl" where
  "echo_action args g = (Returned args, g)"

definition reporting_handler :: "string \<Rightarrow> tgl \<Rightarrow> string outcome \<times> tgl" where
  "reporting_handler reason g = (Returned reason, g)"

definition tgl_with_environ :: "(string \<rightharpoonup> pyval) \<Rightarrow> tgl" where
  "tgl_with_environ env = plain_tgl\<lparr> request := plain_request\<lparr> environ := env \<rparr> \<rparr>"

text \<open>
  What is known of the order in which the interpreter lists a set: the list has the
  same elements and the same length.
\<close>

definition rearrangement :: "(pyval list \<Rightarrow> pyval list) \<Rightarrow> bool" where
  "rearrangement f \<longleftrightarrow> (\<forall>xs. set (f xs) = set xs \<and> length (f xs) = length xs)"

text \<open>
  For the examples: an interpreter that lists a set in the order given, the
  \<open>default_engine\<close> of the configuration a middleware was built with, and a list of
  engines as tw2 prefers them.
\<close>

definition listed_order :: "pyval list \<Rightarrow> pyval list" where
  "listed_order xs = xs"

definition default_engine_of :: "exn + 'app TwMiddleware \<Rightarrow> pyval option" where
  "default_engine_of r =
     (case r of Inl e \<Rightarrow> None | Inr (TwMiddleware app cfg) \<Rightarrow> map_of cfg ''default_engine'')"

definition tw2_preferred :: "pyval list" where
  "tw2_preferred = [PStr ''mako'', PStr ''genshi'', PStr ''jinja'', PStr ''kajiki'']"

text \<open>
  The parameter values \<open>before_validate\<close> copes with: a false value is not
  converted, and \<open>int\<close> takes a string, an integer or a boolean without TypeError.
\<close>

definition int_accepts :: "pyval \<Rightarrow> bool" where
  "int_accepts v \<longleftrightarrow>
     \<not> truthy v \<or> (case v of PStr s \<Rightarrow> True | PInt n \<Rightarrow> True | PBool b \<Rightarrow> True | _ \<Rightarrow> False)"

text \<open>
  For the examples: a stand-in for \<open>int\<close> on strings that parses a string of
  decimal digits and rejects anything else.
\<close>

definition digits_only :: "string \<Rightarrow> int option" where
  "digits_only s =
     (if s \<noteq> [] \<and> list_all (\<lambda>c. c \<in> set ''0123456789'') s
      then Some (foldl (\<lambda>n c. 10 * n + int (of_char c) - 48) 0 s)
      else None)"

section \<open>Template engine registration\<close>

lemma engines_inv_init: "engines_inv (Decoration_init c)"
  by (simp add: engines_inv_def Decoration_init_def)

lemma length_one_key:
  assumes "length al = 1" and "k \<in> fst ` set al"
  shows "fst (hd al) = k"
  using assms by (cases al) auto

lemma update_key_mem: "k \<in> fst ` set (AList.update k v al)"
  by (induction al) auto

lemma engines_register:
  "engines (register_template_engine d ct e t x) = AList.update (key_of ct) (e, t, x) (engines d)"
  by (simp add: register_template_engine_def key_of_def Let_def)

lemma engines_inv_register:
  assumes "distinct (map fst (engines d))"
  shows "engines_inv (register_template_engine d ct e t x)"
proof -
  let ?al = "AList.update (key_of ct) (e, t, x) (engines d)"
  have dist: "distinct (map fst ?al)"
    using assms by (rule distinct_update)
  have key: "length ?al = 1 \<Longrightarrow> fst (hd ?al) = key_of ct"
    by (rule length_one_key) (simp_all add: update_key_mem)
  show ?thesis
    using dist key
    by (simp add: engines_inv_def register_template_engine_def key_of_def Let_def)
qed

lemma engines_inv_register_all:
  "engines_inv d \<Longrightarrow> engines_inv (register_all d rs)"
proof (induction rs arbitrary: d)
  case Nil
  then show ?case by simp
next
  case (Cons r rs)
  obtain ct e t x where r: "r = (ct, e, t, x)" by (cases r) auto
  from Cons.prems have "distinct (map fst (engines d))" by (simp add: engines_inv_def)
  then have "engines_inv (register_template_engine d ct e t x)" by (rule engines_inv_register)
  then show ?case using Cons.IH r by simp
qed

lemma map_of_register_all:
  "map_of (engines (register_all d rs)) = map_of (engines d) ++ map_of (rev (registered rs))"
proof (induction rs arbitrary: d)
  case Nil
  then show ?case by (simp add: registered_def)
next
  case (Cons r rs)
  obtain ct e t x where r: "r = (ct, e, t, x)" by (cases r) auto
  have "map_of (engines (register_all d (r # rs))) =
        map_of (engines (register_template_engine d ct e t x)) ++ map_of (rev (registered rs))"
    using Cons.IH r by simp
  also have "\<dots> = (map_of (engines d))(key_of ct \<mapsto> (e, t, x)) ++ map_of (rev (registered rs))"
    by (simp add: engines_register update_conv')
  also have "\<dots> = map_of (engines d) ++ map_of (rev (registered (r # rs)))"
    by (simp add: registered_def r map_add_upd_left)
  finally show ?case .
qed

lemma sort_keys_set:
  "distinct (xs::string list) \<Longrightarrow> sort xs = sorted_list_of_set (set xs)"
  by (simp add: sorted_list_of_set_sort_remdups distinct_remdups_id)

lemma keys_register_all_init:
  "fst ` set (engines (register_all (Decoration_init c) rs)) = fst ` set (registered rs)"
proof -
  have "dom (map_of (engines (register_all (Decoration_init c) rs))) = dom (map_of (rev (registered rs)))"
    by (simp add: map_of_register_all Decoration_init_def)
  then show ?thesis by (simp add: dom_map_of_conv_image_fst)
qed

lemma map_of_register_all_init:
  "map_of (engines (register_all (Decoration_init c) rs)) = map_of (rev (registered rs))"
  by (simp add: map_of_register_all Decoration_init_def)

lemma single_key:
  assumes "distinct (map fst al)" and "fst ` set al = {k}"
  shows "length al = 1 \<and> fst (hd al) = k"
proof -
  have "length al = card (set (map fst al))"
    using distinct_card [OF assms(1)] by simp
  also have "\<dots> = 1" using assms(2) by simp
  finally have l: "length al = 1" .
  moreover have "fst (hd al) = k"
    using l assms(2) by (intro length_one_key) auto
  ultimately show ?thesis by simp
qed

lemma many_keys:
  assumes "distinct (map fst al)" and "1 < card (fst ` set al)"
  shows "length al \<noteq> 1"
proof -
  have "length al = card (set (map fst al))"
    using distinct_card [OF assms(1)] by simp
  then show ?thesis using assms(2) by simp
qed

text \<open>
  Claim C10. After any sequence of \<open>register_template_engine\<close> calls on a new
  Decoration: \<open>default_engine\<close> is the registered content type when exactly one is
  registered and \<open>None\<close> when more than one is; \<open>engines_keys\<close> is the registered
  content types sorted in reverse; a missing content type is stored under \<open>*/*\<close>; and
  the entry kept for a content type is that of its latest registration.
\<close>

theorem register_template_engine_invariant:
  fixes rs :: "registration list"
  shows "(\<forall>k. fst ` set (registered rs) = {k} \<longrightarrow>
            default_engine (register_all (Decoration_init c) rs) = Some k) \<and>
         (1 < card (fst ` set (registered rs)) \<longrightarrow>
            default_engine (register_all (Decoration_init c) rs) = None) \<and>
         engines_keys (register_all (Decoration_init c) rs) =
            rev (sorted_list_of_set (fst ` set (registered rs))) \<and>
         (\<forall>k. map_of (engines (register_all (Decoration_init c) rs)) k =
               map_of (rev (registered rs)) k) \<and>
         (\<forall>e t x. registered ((None, e, t, x) # rs) = (''*/*'', e, t, x) # registered rs)"
proof -
  let ?d = "register_all (Decoration_init c) rs"
  have inv: "engines_inv ?d"
    by (rule engines_inv_register_all) (rule engines_inv_init)
  then have dist: "distinct (map fst (engines ?d))"
    and dflt: "default_engine ?d = (if length (engines ?d) = 1 then Some (fst (hd (engines ?d))) else None)"
    and keys: "engines_keys ?d = rev (sort (map fst (engines ?d)))"
    by (simp_all add: engines_inv_def)
  have K: "fst ` set (engines ?d) = fst ` set (registered rs)"
    by (rule keys_register_all_init)
  have one: "default_engine ?d = Some k" if "fst ` set (registered rs) = {k}" for k
    using single_key [OF dist, of k] that K dflt by simp
  have many: "default_engine ?d = None" if "1 < card (fst ` set (registered rs))"
    using many_keys [OF dist] that K dflt by simp
  have sorted_keys: "engines_keys ?d = rev (sorted_list_of_set (fst ` set (registered rs)))"
    using keys sort_keys_set [OF dist] K by simp
  have latest: "map_of (engines ?d) k = map_of (rev (registered rs)) k" for k
    by (simp add: map_of_register_all_init)
  have star: "registered ((None, e, t, x) # rs) = (''*/*'', e, t, x) # registered rs" for e t x
    by (simp add: registered_def key_of_def)
  show ?thesis using one many sorted_keys latest star by blast
qed

theorem register_template_engine_invariant_witness:
  "default_engine (register_all (Decoration_init 0)
       [(Some ''text/html'', PStr ''genshi'', PStr ''index'', PList [])]) = Some ''text/html'' \<and>
   default_engine (register_all (Decoration_init 0)
       [(Some ''text/html'', PStr ''genshi'', PStr ''index'', PList []),
        (None, PStr ''json'', PNone, PList [])]) = None \<and>
   engines_keys (register_all (Decoration_init 0)
       [(Some ''text/html'', PStr ''genshi'', PStr ''index'', PList []),
        (None, PStr ''json'', PNone, PList [])]) = [''text/html'', ''*/*''] \<and>
   map_of (engines (register_all (Decoration_init 0)
       [(Some ''text/html'', PStr ''genshi'', PStr ''index'', PList []),
        (Some ''text/html'', PStr ''mako'', PStr ''other'', PList [])])) ''text/html'' =
     Some (PStr ''mako'', PStr ''other'', PList [])"
  using register_template_engine_invariant [of "[(Some ''text/html'', PStr ''genshi'', PStr ''index'', PList [])]" 0]
        register_template_engine_invariant [of "[(Some ''text/html'', PStr ''genshi'', PStr ''index'', PList []),
        (None, PStr ''json'', PNone, PList [])]" 0]
        register_template_engine_invariant [of "[(Some ''text/html'', PStr ''genshi'', PStr ''index'', PList []),
        (Some ''text/html'', PStr ''mako'', PStr ''other'', PList [])]" 0]
  by (simp add: registered_def key_of_def sorted_list_of_set_sort_remdups)

section \<open>Template engine lookup\<close>

lemma add_charset_text_html: "add_charset ''text/html'' = ''text/html; charset=utf-8''"
  by (simp add: add_charset_def startswith_def)

lemma lookup_plain:
  assumes "active_custom_format d (request g) = None \<or> active_custom_format d (request g) = Some []"
    and "response_headers (response g) ''Content-Type'' = None"
    and "no_template_override (request g) (controller d)"
  shows "lookup_template_engine best_match d g =
           Inr (add_charset (registry_content_type best_match d (request g)),
                case map_of (engines d) (registry_content_type best_match d (request g)) of
                  Some entry \<Rightarrow> entry | None \<Rightarrow> (PNone, PNone, PNone))"
proof -
  have ov: "override_lookup d (request g) ct = None" for ct
    using assms(3) by (auto simp: override_lookup_def no_template_override_def split: option.splits)
  show ?thesis
    using assms(1,2) ov
    by (auto simp: lookup_template_engine_def Let_def split: option.splits)
qed

lemma controller_register_all: "controller (register_all d rs) = controller d"
  by (induction rs arbitrary: d) (auto simp: register_template_engine_def Let_def)

lemma accept_types_registered:
  "accept_types (register_all (Decoration_init c) rs) req =
     (case response_type req of
        Some rt \<Rightarrow>
          if rt \<noteq> [] \<and> rt \<in> fst ` set (registered rs) then rt
          else (case request_headers req ''accept'' of Some a \<Rightarrow> a | None \<Rightarrow> ''*/*'')
      | None \<Rightarrow> (case request_headers req ''accept'' of Some a \<Rightarrow> a | None \<Rightarrow> ''*/*''))"
proof -
  have "map_of (engines (register_all (Decoration_init c) rs)) rt \<noteq> None \<longleftrightarrow>
        rt \<in> fst ` set (registered rs)" for rt
    using keys_register_all_init [of c rs]
    by (metis domIff dom_map_of_conv_image_fst)
  then show ?thesis by (simp add: accept_types_def split: option.splits)
qed

text \<open>
  Claim C2, as amended. For a Decoration whose engines were registered by
  \<open>register_template_engine\<close>, with no active custom format, when the response
  carries no Content-Type header and the request holds no template override for the
  controller, \<open>lookup_template_engine\<close> returns the content type selected as follows
  (with \<open>; charset=utf-8\<close> appended where that applies) and the engine, template and
  exclude\_names registered for it, or three \<open>None\<close>s when nothing is registered for
  it. With no engine registered the content type is \<open>text/html\<close>; with exactly one,
  under a content type that is not the empty string, it is that content type, without
  matching; with more than one it is \<open>best_match\<close> of the reverse-sorted registered
  content types against the request's \<open>response_type\<close> when that is one of them,
  and against the Accept header (default \<open>*/*\<close>) otherwise; and with exactly one,
  under the empty string, it is \<open>best_match\<close> of that one against the Accept header.
\<close>

theorem lookup_template_engine_registered:
  fixes rs :: "registration list"
  assumes "active_custom_format (register_all (Decoration_init c) rs) (request g) = None \<or>
           active_custom_format (register_all (Decoration_init c) rs) (request g) = Some []"
    and "response_headers (response g) ''Content-Type'' = None"
    and "no_template_override (request g) c"
  shows "(fst ` set (registered rs) = {} \<longrightarrow>
            lookup_template_engine best_match (register_all (Decoration_init c) rs) g =
              Inr (''text/html; charset=utf-8'', PNone, PNone, PNone)) \<and>
         (\<forall>k. fst ` set (registered rs) = {k} \<and> k \<noteq> [] \<longrightarrow>
            lookup_template_engine best_match (register_all (Decoration_init c) rs) g =
              Inr (add_charset k, registered_entry rs k)) \<and>
         (1 < card (fst ` set (registered rs)) \<longrightarrow>
            lookup_template_engine best_match (register_all (Decoration_init c) rs) g =
              (let accept =
                     (case response_type (request g) of
                        Some rt \<Rightarrow>
                          if rt \<noteq> [] \<and> rt \<in> fst ` set (registered rs) then rt
                          else (case request_headers (request g) ''accept'' of
                                  Some a \<Rightarrow> a | None \<Rightarrow> ''*/*'')
                      | None \<Rightarrow> (case request_headers (request g) ''accept'' of
                                  Some a \<Rightarrow> a | None \<Rightarrow> ''*/*''));
                   content_type = best_match (rev (sorted_list_of_set (fst ` set (registered rs)))) accept
               in Inr (add_charset content_type, registered_entry rs content_type))) \<and>
         (fst ` set (registered rs) = {[]} \<longrightarrow>
            lookup_template_engine best_match (register_all (Decoration_init c) rs) g =
              (let accept = (case request_headers (request g) ''accept'' of
                               Some a \<Rightarrow> a | None \<Rightarrow> ''*/*'');
                   content_type = best_match [[]] accept
               in Inr (add_charset content_type, registered_entry rs content_type)))"
proof -
  let ?d = "register_all (Decoration_init c) rs"
  let ?K = "fst ` set (registered rs)"
  have ctl: "controller ?d = c"
    by (simp add: controller_register_all Decoration_init_def)
  have plain: "lookup_template_engine best_match ?d g =
           Inr (add_charset (registry_content_type best_match ?d (request g)),
                registered_entry rs (registry_content_type best_match ?d (request g)))"
    using lookup_plain [OF assms(1) assms(2), of best_match] assms(3) ctl
    by (simp add: map_of_register_all_init registered_entry_def)
  have inv: "engines_inv ?d"
    by (rule engines_inv_register_all) (rule engines_inv_init)
  then have dist: "distinct (map fst (engines ?d))"
    and dflt: "default_engine ?d = (if length (engines ?d) = 1 then Some (fst (hd (engines ?d))) else None)"
    and keys: "engines_keys ?d = rev (sort (map fst (engines ?d)))"
    by (simp_all add: engines_inv_def)
  have K: "fst ` set (engines ?d) = ?K"
    by (rule keys_register_all_init)
  have none: "registry_content_type best_match ?d (request g) = ''text/html''" if "?K = {}"
  proof -
    from that K have "engines ?d = []" by simp
    then show ?thesis using dflt by (simp add: registry_content_type_def)
  qed
  have one: "registry_content_type best_match ?d (request g) = k" if "?K = {k}" "k \<noteq> []" for k
  proof -
    from single_key [OF dist, of k] that K dflt have "default_engine ?d = Some k" by simp
    then show ?thesis using that(2) by (simp add: registry_content_type_def)
  qed
  have many: "registry_content_type best_match ?d (request g) =
                best_match (rev (sorted_list_of_set ?K)) (accept_types ?d (request g))"
    if "1 < card ?K"
  proof -
    from many_keys [OF dist] that K dflt have d0: "default_engine ?d = None" by simp
    from that K have ne: "engines ?d \<noteq> []" by auto
    have "engines_keys ?d = rev (sorted_list_of_set ?K)"
      using keys sort_keys_set [OF dist] K by simp
    then show ?thesis using d0 ne by (simp add: registry_content_type_def)
  qed
  have empty_key: "registry_content_type best_match ?d (request g) =
                best_match [[]] (case request_headers (request g) ''accept'' of
                                   Some a \<Rightarrow> a | None \<Rightarrow> ''*/*'')"
    if "?K = {[]}"
  proof -
    from single_key [OF dist, of "[]"] that K dflt have d0: "default_engine ?d = Some []" by simp
    from that K have ne: "engines ?d \<noteq> []" by auto
    have ks: "engines_keys ?d = [[]]"
      using keys sort_keys_set [OF dist] K that by simp
    have acc: "accept_types ?d (request g) =
                 (case request_headers (request g) ''accept'' of Some a \<Rightarrow> a | None \<Rightarrow> ''*/*'')"
      using that by (simp add: accept_types_registered split: option.splits)
    show ?thesis using d0 ne ks acc by (simp add: registry_content_type_def)
  qed
  have c1: "?K = {} \<longrightarrow> lookup_template_engine best_match ?d g =
              Inr (''text/html; charset=utf-8'', PNone, PNone, PNone)"
    using plain none by (simp add: add_charset_text_html registered_entry_def)
  have c2: "\<forall>k. ?K = {k} \<and> k \<noteq> [] \<longrightarrow>
              lookup_template_engine best_match ?d g = Inr (add_charset k, registered_entry rs k)"
    using plain one by simp
  have c3: "1 < card ?K \<longrightarrow>
            lookup_template_engine best_match ?d g =
              (let accept =
                     (case response_type (request g) of
                        Some rt \<Rightarrow>
                          if rt \<noteq> [] \<and> rt \<in> ?K then rt
                          else (case request_headers (request g) ''accept'' of
                                  Some a \<Rightarrow> a | None \<Rightarrow> ''*/*'')
                      | None \<Rightarrow> (case request_headers (request g) ''accept'' of
                                  Some a \<Rightarrow> a | None \<Rightarrow> ''*/*''));
                   content_type = best_match (rev (sorted_list_of_set ?K)) accept
               in Inr (add_charset content_type, registered_entry rs content_type))"
    using plain many by (simp add: accept_types_registered Let_def)
  have c4: "?K = {[]} \<longrightarrow>
            lookup_template_engine best_match ?d g =
              (let accept = (case request_headers (request g) ''accept'' of
                               Some a \<Rightarrow> a | None \<Rightarrow> ''*/*'');
                   content_type = best_match [[]] accept
               in Inr (add_charset content_type, registered_entry rs content_type))"
    using plain empty_key by (simp add: Let_def)
  show ?thesis
    by (intro conjI c1 c2 c3 c4)
qed

theorem lookup_template_engine_registered_witness:
  "active_custom_format
      (register_all (Decoration_init 0)
         [(Some ''text/html'', PStr ''genshi'', PStr ''index'', PList []),
          (Some ''application/json'', PStr ''json'', PNone, PList [PStr ''tmpl_context''])])
      (request (plain_tgl\<lparr> request := plain_request\<lparr> response_type := Some ''application/json'' \<rparr> \<rparr>)) = None \<and>
   response_headers (response (plain_tgl\<lparr> request := plain_request\<lparr> response_type := Some ''application/json'' \<rparr> \<rparr>))
      ''Content-Type'' = None \<and>
   no_template_override (request (plain_tgl\<lparr> request := plain_request\<lparr> response_type := Some ''application/json'' \<rparr> \<rparr>)) 0 \<and>
   lookup_template_engine exact_or_first
      (register_all (Decoration_init 0)
         [(Some ''text/html'', PStr ''genshi'', PStr ''index'', PList []),
          (Some ''application/json'', PStr ''json'', PNone, PList [PStr ''tmpl_context''])])
      (plain_tgl\<lparr> request := plain_request\<lparr> response_type := Some ''application/json'' \<rparr> \<rparr>) =
     Inr (''application/json; charset=utf-8'', PStr ''json'', PNone, PList [PStr ''tmpl_context'']) \<and>
   lookup_template_engine exact_or_first
      (register_all (Decoration_init 0) [(Some ''text/html'', PStr ''genshi'', PStr ''index'', PList [])])
      plain_tgl =
     Inr (''text/html; charset=utf-8'', PStr ''genshi'', PStr ''index'', PList []) \<and>
   lookup_template_engine exact_or_first (register_all (Decoration_init 0) []) plain_tgl =
     Inr (''text/html; charset=utf-8'', PNone, PNone, PNone)"
  using lookup_template_engine_registered
          [of 0 "[(Some ''text/html'', PStr ''genshi'', PStr ''index'', PList []),
                  (Some ''application/json'', PStr ''json'', PNone, PList [PStr ''tmpl_context''])]"
              "plain_tgl\<lparr> request := plain_request\<lparr> response_type := Some ''application/json'' \<rparr> \<rparr>"
              exact_or_first]
        lookup_template_engine_registered
          [of 0 "[(Some ''text/html'', PStr ''genshi'', PStr ''index'', PList [])]" plain_tgl exact_or_first]
        lookup_template_engine_registered [of 0 "[]" plain_tgl exact_or_first]
  by (simp add: registered_def key_of_def registered_entry_def no_template_override_def
        active_custom_format_def plain_tgl_def plain_request_def Decoration_init_def
        register_template_engine_def exact_or_first_def add_charset_def startswith_def
        sorted_list_of_set_sort_remdups Let_def)

text \<open>
  The claim as stated fails when the controller has set a Content-Type header on the
  response: that header replaces the selected content type. Here one engine is
  registered, for \<open>text/html\<close>, no custom format is active, and the lookup returns
  no engine.
\<close>

theorem lookup_template_engine_counterexample:
  "map_of (engines (register_all (Decoration_init 0)
       [(Some ''text/html'', PStr ''genshi'', PStr ''index'', PList [])])) ''text/html'' =
     Some (PStr ''genshi'', PStr ''index'', PList []) \<and>
   length (engines (register_all (Decoration_init 0)
       [(Some ''text/html'', PStr ''genshi'', PStr ''index'', PList [])])) = 1 \<and>
   active_custom_format (register_all (Decoration_init 0)
       [(Some ''text/html'', PStr ''genshi'', PStr ''index'', PList [])]) plain_request = None \<and>
   lookup_template_engine exact_or_first
      (register_all (Decoration_init 0) [(Some ''text/html'', PStr ''genshi'', PStr ''index'', PList [])])
      (plain_tgl\<lparr> response := \<lparr> status_int = 200,
                                 response_headers = [''Content-Type'' \<mapsto> ''application/json''] \<rparr> \<rparr>) =
     Inr (''application/json; charset=utf-8'', PNone, PNone, PNone)"
  by (simp add: lookup_template_engine_def registry_content_type_def override_lookup_def
        active_custom_format_def plain_tgl_def plain_request_def Decoration_init_def
        register_template_engine_def split_semicolon_def add_charset_def startswith_def Let_def)

section \<open>The hook pipeline\<close>

lemma call_funcs_normal:
  assumes "\<forall>f\<in>set fs. \<forall>w. fst (call f args w) = None"
  shows "call_funcs call fs args tr w =
           (None, tr @ map (\<lambda>f. (f, args)) fs, fold (\<lambda>f w. snd (call f args w)) fs w)"
  using assms
proof (induction fs arbitrary: tr w)
  case Nil
  then show ?case by simp
next
  case (Cons f fs)
  obtain r w' where c: "call f args w = (r, w')" by (cases "call f args w")
  from Cons.prems have "fst (call f args w) = None" by simp
  with c have r: "r = None" by simp
  from Cons.prems have rest: "\<forall>f\<in>set fs. \<forall>w. fst (call f args w) = None" by simp
  show ?case using c r Cons.IH [OF rest] by simp
qed

lemma hooks_init:
  "h \<in> set core_hook_names \<Longrightarrow> map_of (hooks (Decoration_init c)) h = Some []"
  by (auto simp: core_hook_names_def Decoration_init_def)

lemma hooks_register_hook:
  assumes "register_hook d n f = Inr d'"
  shows "map_of (hooks d') h =
           (if h = n then Some (the (map_of (hooks d) n) @ [f]) else map_of (hooks d) h)"
  using assms
  by (auto simp: register_hook_def update_conv' split: option.splits)

lemma hooks_register_hooks:
  assumes "register_hooks d regs = Inr d'" and "map_of (hooks d) h = Some fs"
  shows "map_of (hooks d') h = Some (fs @ registered_hooks regs h)"
  using assms
proof (induction regs arbitrary: d fs)
  case Nil
  then show ?case by (simp add: registered_hooks_def)
next
  case (Cons r regs)
  obtain n f where r: "r = (n, f)" by (cases r)
  from Cons.prems(1) r obtain d1 where
    d1: "register_hook d n f = Inr d1" and rest: "register_hooks d1 regs = Inr d'"
    by (auto split: sum.splits)
  have "map_of (hooks d1) h = Some (if h = n then fs @ [f] else fs)"
    using hooks_register_hook [OF d1, of h] Cons.prems(2) by auto
  from Cons.IH [OF rest this] show ?case
    by (simp add: registered_hooks_def r)
qed

lemma register_hooks_total:
  assumes "\<forall>r\<in>set regs. fst r \<in> dom (map_of (hooks d))"
  shows "\<exists>d'. register_hooks d regs = Inr d'"
  using assms
proof (induction regs arbitrary: d)
  case Nil
  then show ?case by simp
next
  case (Cons r regs)
  obtain n f where r: "r = (n, f)" by (cases r)
  from Cons.prems r obtain fs where fs: "map_of (hooks d) n = Some fs" by auto
  then obtain d1 where d1: "register_hook d n f = Inr d1"
    by (simp add: register_hook_def)
  have "dom (map_of (hooks d1)) = dom (map_of (hooks d))"
    using hooks_register_hook [OF d1] fs by (auto simp: dom_def split: if_splits)
  with Cons.prems have "\<forall>r\<in>set regs. fst r \<in> dom (map_of (hooks d1))" by simp
  from Cons.IH [OF this] show ?case using d1 r by simp
qed

lemma call_funcs_append:
  "call_funcs call (xs @ ys) args tr w =
     (case call_funcs call xs args tr w of
        (None, tr', w') \<Rightarrow> call_funcs call ys args tr' w'
      | (Some e, tr', w') \<Rightarrow> (Some e, tr', w'))"
proof (induction xs arbitrary: tr w)
  case Nil
  then show ?case by simp
next
  case (Cons x xs)
  obtain r w1 where c: "call x args w = (r, w1)" by (cases "call x args w")
  show ?case
  proof (cases r)
    case None
    then show ?thesis using c Cons.IH by simp
  next
    case (Some e)
    then show ?thesis using c by simp
  qed
qed

lemma call_funcs_trace:
  "\<exists>n. n \<le> length fs \<and>
     fst (snd (call_funcs call fs args tr w)) = tr @ take n (map (\<lambda>f. (f, args)) fs) \<and>
     (fst (call_funcs call fs args tr w) = None \<longrightarrow> n = length fs) \<and>
     (\<forall>e. fst (call_funcs call fs args tr w) = Some e \<longrightarrow>
        0 < n \<and> (\<exists>w'. fst (call (fs ! (n - 1)) args w') = Some e))"
proof (induction fs arbitrary: tr w)
  case Nil
  show ?case by (rule exI [of _ 0]) simp
next
  case (Cons f fs)
  obtain r w1 where c: "call f args w = (r, w1)" by (cases "call f args w")
  show ?case
  proof (cases r)
    case (Some e)
    have res: "call_funcs call (f # fs) args tr w = (Some e, tr @ [(f, args)], w1)"
      using c Some by simp
    have raised: "fst (call f args w) = Some e" using c Some by simp
    show ?thesis
      unfolding res
      by (rule exI [of _ "Suc 0"]) (use raised in auto)
  next
    case None
    have step: "call_funcs call (f # fs) args tr w = call_funcs call fs args (tr @ [(f, args)]) w1"
      using c None by simp
    from Cons.IH [of "tr @ [(f, args)]" w1] obtain n where IH:
      "n \<le> length fs \<and>
       fst (snd (call_funcs call fs args (tr @ [(f, args)]) w1)) =
         (tr @ [(f, args)]) @ take n (map (\<lambda>f. (f, args)) fs) \<and>
       (fst (call_funcs call fs args (tr @ [(f, args)]) w1) = None \<longrightarrow> n = length fs) \<and>
       (\<forall>e. fst (call_funcs call fs args (tr @ [(f, args)]) w1) = Some e \<longrightarrow>
          0 < n \<and> (\<exists>w'. fst (call (fs ! (n - 1)) args w') = Some e))" ..
    note n = IH [THEN conjunct1]
    note tr = IH [THEN conjunct2, THEN conjunct1]
    note full = IH [THEN conjunct2, THEN conjunct2, THEN conjunct1]
    note raised = IH [THEN conjunct2, THEN conjunct2, THEN conjunct2]
    have nth: "0 < n \<Longrightarrow> (f # fs) ! (Suc n - 1) = fs ! (n - 1)"
      by (cases n) simp_all
    have a: "Suc n \<le> length (f # fs)" using n by simp
    have b: "fst (snd (call_funcs call fs args (tr @ [(f, args)]) w1)) =
               tr @ take (Suc n) (map (\<lambda>f. (f, args)) (f # fs))"
      using tr by simp
    have c1: "fst (call_funcs call fs args (tr @ [(f, args)]) w1) = None \<longrightarrow> Suc n = length (f # fs)"
      using full by simp
    have d: "\<forall>e. fst (call_funcs call fs args (tr @ [(f, args)]) w1) = Some e \<longrightarrow>
                0 < Suc n \<and> (\<exists>w'. fst (call ((f # fs) ! (Suc n - 1)) args w') = Some e)"
    proof (intro allI impI)
      fix e assume "fst (call_funcs call fs args (tr @ [(f, args)]) w1) = Some e"
      with raised [THEN spec, of e] have "0 < n" and "\<exists>w'. fst (call (fs ! (n - 1)) args w') = Some e"
        by simp_all
      then show "0 < Suc n \<and> (\<exists>w'. fst (call ((f # fs) ! (Suc n - 1)) args w') = Some e)"
        using nth by simp
    qed
    show ?thesis
      unfolding step
      by (rule exI [of _ "Suc n"]) (intro conjI a b c1 d)
  qed
qed

text \<open>
  The outcome of the system-wide loop as \<open>run_hooks\<close> sees it: a KeyError is
  swallowed by the \<open>except\<close> clause.
\<close>

lemma run_hooks_unfold:
  "run_hooks d g call hook args w =
     (case (case call_funcs call (syswide_hooks_of g hook) args [] w of
              (Some KeyError, tr, w') \<Rightarrow> (None, tr, w')
            | r \<Rightarrow> r) of
        (Some e, tr, w') \<Rightarrow> (Some e, tr, w')
      | (None, tr, w') \<Rightarrow>
          (case map_of (hooks d) hook of
             None \<Rightarrow> (Some KeyError, tr, w')
           | Some fs \<Rightarrow> call_funcs call fs args tr w'))"
  by (simp add: run_hooks_def syswide_hooks_of_def Let_def split: option.splits)

lemma run_hooks_sequential:
  assumes "map_of (hooks d) hook = Some own"
    and "fst (call_funcs call (syswide_hooks_of g hook) args [] w) \<noteq> Some KeyError"
  shows "run_hooks d g call hook args w =
           call_funcs call (syswide_hooks_of g hook @ own) args [] w"
proof -
  obtain r tr w' where sys: "call_funcs call (syswide_hooks_of g hook) args [] w = (r, tr, w')"
    by (cases "call_funcs call (syswide_hooks_of g hook) args [] w")
  from assms(2) sys have nk: "r \<noteq> Some KeyError" by simp
  show ?thesis
  proof (cases r)
    case None
    then show ?thesis
      using sys assms(1) by (simp add: run_hooks_unfold call_funcs_append)
  next
    case (Some e)
    with nk have "e \<noteq> KeyError" by simp
    then show ?thesis
      using sys Some by (cases e) (simp_all add: run_hooks_unfold call_funcs_append)
  qed
qed

text \<open>
  Claim C3, as amended. For each of the four hook names, on a Decoration whose hooks
  were registered by \<open>register_hook\<close>, \<open>run_hooks\<close> is one loop over the system-wide
  hook functions of \<open>tgl.config['hooks'][hook]\<close> in list order (none when the key is
  absent) followed by the functions registered on the Decoration for the hook in the
  order of their registration, every invocation receiving the arguments given to
  \<open>run_hooks\<close>; the loop ends at the first function that raises, whose exception
  leaves \<open>run_hooks\<close>, so the invocations are an initial part of that list, and all
  of it when \<open>run_hooks\<close> returns. When every function returns, all are invoked in
  that order and the world is threaded through them. The case of a system-wide hook
  that raises KeyError is left out.
\<close>

theorem run_hooks_order:
  assumes "hook \<in> set core_hook_names"
    and "register_hooks (Decoration_init c) regs = Inr d"
  shows "(fst (call_funcs call (syswide_hooks_of g hook) args [] w) \<noteq> Some KeyError \<longrightarrow>
            run_hooks d g call hook args w =
              call_funcs call (syswide_hooks_of g hook @ registered_hooks regs hook) args [] w \<and>
            (\<exists>n. n \<le> length (syswide_hooks_of g hook @ registered_hooks regs hook) \<and>
               fst (snd (run_hooks d g call hook args w)) =
                 take n (map (\<lambda>f. (f, args)) (syswide_hooks_of g hook @ registered_hooks regs hook)) \<and>
               (fst (run_hooks d g call hook args w) = None \<longrightarrow>
                  n = length (syswide_hooks_of g hook @ registered_hooks regs hook)) \<and>
               (\<forall>e. fst (run_hooks d g call hook args w) = Some e \<longrightarrow>
                  0 < n \<and>
                  (\<exists>w'. fst (call ((syswide_hooks_of g hook @ registered_hooks regs hook) ! (n - 1))
                               args w') = Some e)))) \<and>
         ((\<forall>f\<in>set (syswide_hooks_of g hook @ registered_hooks regs hook).
             \<forall>w. fst (call f args w) = None) \<longrightarrow>
            run_hooks d g call hook args w =
              (None,
               map (\<lambda>f. (f, args)) (syswide_hooks_of g hook @ registered_hooks regs hook),
               fold (\<lambda>f w. snd (call f args w))
                 (syswide_hooks_of g hook @ registered_hooks regs hook) w))"
proof -
  let ?sys = "syswide_hooks_of g hook"
  let ?own = "registered_hooks regs hook"
  have own: "map_of (hooks d) hook = Some ?own"
    using hooks_register_hooks [OF assms(2) hooks_init [OF assms(1)]] by simp
  have seq: "run_hooks d g call hook args w = call_funcs call (?sys @ ?own) args [] w"
    if "fst (call_funcs call ?sys args [] w) \<noteq> Some KeyError"
    using run_hooks_sequential [OF own that] .
  have part: "\<exists>n. n \<le> length (?sys @ ?own) \<and>
               fst (snd (run_hooks d g call hook args w)) = take n (map (\<lambda>f. (f, args)) (?sys @ ?own)) \<and>
               (fst (run_hooks d g call hook args w) = None \<longrightarrow> n = length (?sys @ ?own)) \<and>
               (\<forall>e. fst (run_hooks d g call hook args w) = Some e \<longrightarrow>
                  0 < n \<and> (\<exists>w'. fst (call ((?sys @ ?own) ! (n - 1)) args w') = Some e))"
    if "fst (call_funcs call ?sys args [] w) \<noteq> Some KeyError"
    unfolding seq [OF that]
    using call_funcs_trace [of "?sys @ ?own" call args "[]" w] by simp
  have all: "run_hooks d g call hook args w =
              (None, map (\<lambda>f. (f, args)) (?sys @ ?own),
               fold (\<lambda>f w. snd (call f args w)) (?sys @ ?own) w)"
    if ok: "\<forall>f\<in>set (?sys @ ?own). \<forall>w. fst (call f args w) = None"
  proof -
    from ok have "\<forall>f\<in>set ?sys. \<forall>w. fst (call f args w) = None" by simp
    with call_funcs_normal [of ?sys call args "[]" w]
    have "fst (call_funcs call ?sys args [] w) \<noteq> Some KeyError" by simp
    from seq [OF this] call_funcs_normal [of "?sys @ ?own" call args "[]" w] ok
    show ?thesis by simp
  qed
  show ?thesis
    using seq part all by blast
qed

theorem run_hooks_order_witness:
  "run_hooks
     ((Decoration_init 0)\<lparr> hooks := [(''before_validate'', []), (''before_call'', [1, 3]),
                                      (''before_render'', [2]), (''after_render'', [])] \<rparr>)
     (plain_tgl\<lparr> config_hooks := Some [''before_call'' \<mapsto> [7, 8]] \<rparr>)
     logging_call ''before_call'' (''remainder'', ''params'') [] =
   (None,
    [(7, (''remainder'', ''params'')), (8, (''remainder'', ''params'')),
     (1, (''remainder'', ''params'')), (3, (''remainder'', ''params''))],
    [7, 8, 1, 3]) \<and>
   run_hooks
     ((Decoration_init 0)\<lparr> hooks := [(''before_validate'', []), (''before_call'', [1, 3]),
                                      (''before_render'', [2]), (''after_render'', [])] \<rparr>)
     (plain_tgl\<lparr> config_hooks := Some [''before_call'' \<mapsto> [7, 8]] \<rparr>)
     (raising_call 8 (HTTPException 405 ''Method Not Allowed'')) ''before_call''
     (''remainder'', ''params'') [] =
   (Some (HTTPException 405 ''Method Not Allowed''),
    [(7, (''remainder'', ''params'')), (8, (''remainder'', ''params''))],
    [7, 8])"
proof -
  let ?d = "(Decoration_init 0)\<lparr> hooks := [(''before_validate'', []), (''before_call'', [1, 3]),
                                      (''before_render'', [2]), (''after_render'', [])] \<rparr>"
  let ?g = "plain_tgl\<lparr> config_hooks := Some [''before_call'' \<mapsto> [7, 8]] \<rparr>"
  let ?regs = "[(''before_call'', 1), (''before_render'', 2), (''before_call'', 3)]"
  have name: "''before_call'' \<in> set core_hook_names"
    by (simp add: core_hook_names_def)
  have reg: "register_hooks (Decoration_init 0) ?regs = Inr ?d"
    by (simp add: register_hook_def Decoration_init_def)
  have sys: "syswide_hooks_of ?g ''before_call'' = [7, 8]"
    by (simp add: syswide_hooks_of_def)
  have own: "registered_hooks ?regs ''before_call'' = [1, 3]"
    by (simp add: registered_hooks_def)
  have returns: "\<forall>f\<in>set ([7, 8] @ [1, 3]). \<forall>w. fst (logging_call f (''remainder'', ''params'') w) = None"
    by (simp add: logging_call_def)
  have no_key_error:
    "fst (call_funcs (raising_call 8 (HTTPException 405 ''Method Not Allowed'')) [7, 8]
            (''remainder'', ''params'') [] []) \<noteq> Some KeyError"
    by (simp add: raising_call_def)
  note t1 = run_hooks_order [OF name reg, of logging_call ?g "(''remainder'', ''params'')" "[]"]
  note t2 = run_hooks_order
              [OF name reg, of "raising_call 8 (HTTPException 405 ''Method Not Allowed'')" ?g
                 "(''remainder'', ''params'')" "[]"]
  have a: "run_hooks ?d ?g logging_call ''before_call'' (''remainder'', ''params'') [] =
             (None,
              [(7, (''remainder'', ''params'')), (8, (''remainder'', ''params'')),
               (1, (''remainder'', ''params'')), (3, (''remainder'', ''params''))],
              [7, 8, 1, 3])"
    using t1 [THEN conjunct2] returns unfolding sys own
    by (simp add: logging_call_def)
  have b: "run_hooks ?d ?g (raising_call 8 (HTTPException 405 ''Method Not Allowed'')) ''before_call''
             (''remainder'', ''params'') [] =
           (Some (HTTPException 405 ''Method Not Allowed''),
            [(7, (''remainder'', ''params'')), (8, (''remainder'', ''params''))],
            [7, 8])"
    using t2 [THEN conjunct1] no_key_error unfolding sys own
    by (simp add: raising_call_def)
  show ?thesis using a b by simp
qed

text \<open>
  The claim as stated fails when a hook function raises, as the hooks \<open>https\<close> and
  the trailing-slash redirects of the same file do: no later function is invoked.
  Here the first function registered on the controller raises and the second is
  never called.
\<close>

theorem run_hooks_counterexample:
  "map_of (hooks ((Decoration_init 0)\<lparr> hooks := [(''before_validate'', []), (''before_call'', [1, 3]),
                                      (''before_render'', [2]), (''after_render'', [])] \<rparr>))
      ''before_call'' = Some [1, 3] \<and>
   run_hooks
     ((Decoration_init 0)\<lparr> hooks := [(''before_validate'', []), (''before_call'', [1, 3]),
                                      (''before_render'', [2]), (''after_render'', [])] \<rparr>)
     (plain_tgl\<lparr> config_hooks := Some [''before_call'' \<mapsto> [7, 8]] \<rparr>)
     (raising_call 1 (HTTPException 405 ''Method Not Allowed'')) ''before_call'' ''args'' [] =
   (Some (HTTPException 405 ''Method Not Allowed''),
    [(7, ''args''), (8, ''args''), (1, ''args'')], [7, 8, 1])"
  by (simp add: run_hooks_def Decoration_init_def raising_call_def plain_tgl_def)

text \<open>
  What the theorem leaves out: a KeyError raised by a system-wide hook is caught by
  the \<open>except KeyError\<close> around that loop, so the remaining system-wide hooks are
  skipped and the controller's hooks still run.
\<close>

lemma run_hooks_syswide_KeyError:
  "run_hooks
     ((Decoration_init 0)\<lparr> hooks := [(''before_validate'', []), (''before_call'', [1, 3]),
                                      (''before_render'', [2]), (''after_render'', [])] \<rparr>)
     (plain_tgl\<lparr> config_hooks := Some [''before_call'' \<mapsto> [7, 8]] \<rparr>)
     (raising_call 7 KeyError) ''before_call'' ''args'' [] =
   (None, [(7, ''args''), (1, ''args''), (3, ''args'')], [7, 1, 3])"
  by (simp add: run_hooks_def Decoration_init_def raising_call_def plain_tgl_def)

section \<open>The registry of decorations\<close>

lemma heap_ok_empty: "heap_ok empty_heap"
  by (simp add: heap_ok_def empty_heap_def)

lemma get_decoration_known:
  "decoration_attr h f = Some a \<Longrightarrow> get_decoration f h = (a, h)"
  by (simp add: get_decoration_def)

lemma get_decoration_new:
  "decoration_attr h f = None \<Longrightarrow>
   get_decoration f h =
     (length (objects h),
      h\<lparr> objects := objects h @ [Decoration_init f],
         decoration_attr := (decoration_attr h)(f \<mapsto> length (objects h)) \<rparr>)"
  by (simp add: get_decoration_def Let_def)

lemma heap_ok_get_decoration:
  assumes "heap_ok h"
  shows "heap_ok (snd (get_decoration f h))"
proof (cases "decoration_attr h f")
  case None
  have bound: "\<And>g a. decoration_attr h g = Some a \<Longrightarrow> a < length (objects h)"
    using assms by (auto simp: heap_ok_def)
  have inj: "\<And>g g' a. decoration_attr h g = Some a \<Longrightarrow> decoration_attr h g' = Some a \<Longrightarrow> g = g'"
    using assms by (auto simp: heap_ok_def)
  show ?thesis
    unfolding get_decoration_new [OF None] heap_ok_def
    using bound inj by (auto simp: less_Suc_eq dest: bound)
next
  case (Some a)
  then show ?thesis using assms by (simp add: get_decoration_known)
qed

lemma get_decoration_lands:
  assumes "heap_ok h" and "get_decoration f h = (a, h1)"
  shows "decoration_attr h1 f = Some a \<and> a < length (objects h1) \<and> heap_ok h1"
proof -
  have ok1: "heap_ok h1"
    using heap_ok_get_decoration [OF assms(1), of f] assms(2) by simp
  have attr: "decoration_attr h1 f = Some a"
    using assms(2) by (cases "decoration_attr h f") (auto simp: get_decoration_def Let_def)
  with ok1 show ?thesis by (auto simp: heap_ok_def)
qed

lemma decoration_of_get_decoration_other:
  assumes "heap_ok h" and "g \<noteq> f"
  shows "decoration_of (snd (get_decoration f h)) g = decoration_of h g"
proof (cases "decoration_attr h f")
  case None
  have "\<And>a. decoration_attr h g = Some a \<Longrightarrow> a < length (objects h)"
    using assms(1) by (auto simp: heap_ok_def)
  then show ?thesis
    unfolding get_decoration_new [OF None]
    using assms(2) by (auto simp: decoration_of_def nth_append split: option.splits)
next
  case (Some a)
  then show ?thesis by (simp add: get_decoration_known)
qed

lemma decoration_of_get_decoration_new:
  assumes "decoration_attr h f = None"
  shows "decoration_of (snd (get_decoration f h)) f = Some (Decoration_init f)"
  unfolding get_decoration_new [OF assms]
  by (simp add: decoration_of_def)

lemma heap_ok_store: "heap_ok h \<Longrightarrow> heap_ok (store a d h)"
  by (simp add: heap_ok_def store_def)

lemma decoration_of_store:
  assumes "heap_ok h" and "decoration_attr h f = Some a"
  shows "decoration_of (store a d h) g = (if g = f then Some d else decoration_of h g)"
proof -
  have a: "a < length (objects h)"
    using assms by (auto simp: heap_ok_def)
  have other: "decoration_attr h g = Some b \<Longrightarrow> g \<noteq> f \<Longrightarrow> b \<noteq> a" for b
    using assms by (auto simp: heap_ok_def)
  show ?thesis
    using a assms(2) other
    by (auto simp: decoration_of_def store_def split: option.splits)
qed

lemma decoration_attr_store: "decoration_attr (store a d h) = decoration_attr h"
  by (simp add: store_def)

lemma decoration_attr_get_decoration_kept:
  "decoration_attr h g = Some a \<Longrightarrow> decoration_attr (snd (get_decoration f h)) g = Some a"
  by (cases "decoration_attr h f") (auto simp: get_decoration_def Let_def)

text \<open>Storing into the decoration of \<open>f\<close>, after \<open>get_decoration f\<close>.\<close>

lemma decoration_of_modify:
  assumes "heap_ok h" and "get_decoration f h = (a, h1)"
  shows "decoration_of (store a d h1) g = (if g = f then Some d else decoration_of h g)"
proof -
  from get_decoration_lands [OF assms] have attr: "decoration_attr h1 f = Some a" and ok1: "heap_ok h1"
    by simp_all
  have "decoration_of h1 g = decoration_of h g" if "g \<noteq> f"
    using decoration_of_get_decoration_other [OF assms(1) that] assms(2) by simp
  then show ?thesis
    using decoration_of_store [OF ok1 attr, of d g] by simp
qed

lemma expose_call_other:
  assumes "heap_ok h" and "g \<noteq> f"
  shows "decoration_of (snd (expose_call e f h)) g = decoration_of h g"
proof -
  obtain a h1 where gd: "get_decoration f h = (a, h1)" by (cases "get_decoration f h")
  show ?thesis
    using decoration_of_modify [OF assms(1) gd, of _ g] assms(2) gd
    by (simp add: expose_call_def Let_def)
qed

lemma hook_decorator_call_other:
  assumes "heap_ok h" and "g \<noteq> f"
  shows "decoration_of (snd (hook_decorator_call deco f h)) g = decoration_of h g"
proof -
  obtain a h1 where gd: "get_decoration f h = (a, h1)" by (cases "get_decoration f h")
  have h1: "decoration_of h1 g = decoration_of h g"
    using decoration_of_get_decoration_other [OF assms] gd by simp
  show ?thesis
    using decoration_of_modify [OF assms(1) gd, of _ g] assms(2) gd h1
    by (auto simp: hook_decorator_call_def Let_def split: option.splits sum.splits)
qed

lemma heap_ok_expose_call: "heap_ok h \<Longrightarrow> heap_ok (snd (expose_call e f h))"
  using heap_ok_get_decoration [of h f]
  by (auto simp: expose_call_def Let_def heap_ok_store split: prod.splits)

lemma heap_ok_hook_decorator_call: "heap_ok h \<Longrightarrow> heap_ok (snd (hook_decorator_call deco f h))"
  using heap_ok_get_decoration [of h f]
  by (auto simp: hook_decorator_call_def Let_def heap_ok_store split: prod.splits option.splits sum.splits)

lemma heap_ok_validate_call: "heap_ok h \<Longrightarrow> heap_ok (snd (validate_call v f h))"
  using heap_ok_get_decoration [of h f]
  by (auto simp: validate_call_def Let_def heap_ok_store split: prod.splits)

lemma Decoration_init_fields:
  "controller (Decoration_init f) = f \<and>
   engines (Decoration_init f) = [] \<and>
   engines_keys (Decoration_init f) = [] \<and>
   custom_engines (Decoration_init f) = [] \<and>
   default_engine (Decoration_init f) = None \<and>
   render_custom_format (Decoration_init f) = None \<and>
   validation (Decoration_init f) = None \<and>
   error_handler (Decoration_init f) = None \<and>
   map (\<lambda>n. map_of (hooks (Decoration_init f)) n) core_hook_names = [Some [], Some [], Some [], Some []] \<and>
   map fst (hooks (Decoration_init f)) = core_hook_names"
  by (simp add: Decoration_init_def core_hook_names_def)

lemma decoration_attr_expose_call_kept:
  "decoration_attr h g = Some a \<Longrightarrow> decoration_attr (snd (expose_call e f h)) g = Some a"
  using decoration_attr_get_decoration_kept [of h g a f]
  by (auto simp: expose_call_def Let_def decoration_attr_store split: prod.splits)

lemma decoration_attr_hook_decorator_call_kept:
  "decoration_attr h g = Some a \<Longrightarrow> decoration_attr (snd (hook_decorator_call deco f h)) g = Some a"
  using decoration_attr_get_decoration_kept [of h g a f]
  by (auto simp: hook_decorator_call_def Let_def decoration_attr_store
           split: prod.splits option.splits sum.splits)

lemma get_decoration_new_address:
  assumes "heap_ok h" and "decoration_attr h f = None"
  shows "fst (get_decoration f h) = length (objects h) \<and> fst (get_decoration f h) \<notin> ran (decoration_attr h)"
proof -
  have "a < length (objects h)" if "a \<in> ran (decoration_attr h)" for a
    using that assms(1) by (auto simp: heap_ok_def ran_def)
  then show ?thesis
    unfolding get_decoration_new [OF assms(2)] by auto
qed

lemma get_decoration_again:
  "get_decoration f (snd (get_decoration f h)) = get_decoration f h"
  by (cases "decoration_attr h f") (auto simp: get_decoration_def Let_def)

text \<open>
  What an operation on one function leaves alone: the Decoration of every function
  whose attribute does not refer to the object operated on.
\<close>

lemma decoration_of_store_apart:
  "decoration_attr h g \<noteq> Some a \<Longrightarrow> decoration_of (store a d h) g = decoration_of h g"
  by (auto simp: decoration_of_def store_def split: option.splits)

lemma decoration_of_get_decoration_apart:
  assumes "decoration_attr (snd (get_decoration f h)) g \<noteq> Some (fst (get_decoration f h))"
  shows "decoration_of (snd (get_decoration f h)) g = decoration_of h g"
proof (cases "decoration_attr h f")
  case None
  from assms have "g \<noteq> f" and "decoration_attr h g \<noteq> Some (length (objects h))"
    unfolding get_decoration_new [OF None] by (auto split: if_splits)
  then show ?thesis
    unfolding get_decoration_new [OF None]
    by (auto simp: decoration_of_def nth_append less_Suc_eq split: option.splits)
next
  case (Some a)
  then show ?thesis by (simp add: get_decoration_known)
qed

lemma expose_call_apart:
  assumes "decoration_attr (snd (get_decoration f h)) g \<noteq> Some (fst (get_decoration f h))"
  shows "decoration_of (snd (expose_call e f h)) g = decoration_of h g"
proof -
  obtain a h1 where gd: "get_decoration f h = (a, h1)" by (cases "get_decoration f h")
  from assms gd have apart: "decoration_attr h1 g \<noteq> Some a" by simp
  have h1: "decoration_of h1 g = decoration_of h g"
    using decoration_of_get_decoration_apart [OF assms] gd by simp
  show ?thesis
    using decoration_of_store_apart [OF apart] h1 gd
    by (simp add: expose_call_def Let_def)
qed

lemma hook_decorator_call_apart:
  assumes "decoration_attr (snd (get_decoration f h)) g \<noteq> Some (fst (get_decoration f h))"
  shows "decoration_of (snd (hook_decorator_call deco f h)) g = decoration_of h g"
proof -
  obtain a h1 where gd: "get_decoration f h = (a, h1)" by (cases "get_decoration f h")
  from assms gd have apart: "decoration_attr h1 g \<noteq> Some a" by simp
  have h1: "decoration_of h1 g = decoration_of h g"
    using decoration_of_get_decoration_apart [OF assms] gd by simp
  show ?thesis
    using decoration_of_store_apart [OF apart] h1 gd
    by (auto simp: hook_decorator_call_def Let_def split: option.splits sum.splits)
qed

lemma heap_ok_apart:
  assumes "heap_ok h" and "g \<noteq> f"
  shows "decoration_attr (snd (get_decoration f h)) g \<noteq> Some (fst (get_decoration f h))"
proof -
  obtain a h1 where gd: "get_decoration f h = (a, h1)" by (cases "get_decoration f h")
  from get_decoration_lands [OF assms(1) gd]
  have "decoration_attr h1 f = Some a" and "heap_ok h1" by simp_all
  then have "decoration_attr h1 g \<noteq> Some a"
    using assms(2) by (auto simp: heap_ok_def)
  then show ?thesis using gd by simp
qed

text \<open>
  Claim C4, as amended. The first \<open>get_decoration\<close> on a function that has no
  \<open>decoration\<close> attribute creates a new Decoration, attaches it to the function and
  returns it; the new Decoration has no engines, no custom engines, no default engine,
  no validation, no error handler and an empty list for each of the four hook names.
  A further call returns the same object and changes nothing, and the attribute stays
  through every call of \<open>get_decoration\<close> and of the decorators on any function.
  What \<open>get_decoration\<close>, \<open>expose\<close> or a hook decorator does for one function leaves
  as it was the Decoration of every function whose attribute refers to another
  object. In a heap built from the empty one by these operations the attributes of
  different functions refer to different objects; a function object that was given
  another function's attribute shares its Decoration.
\<close>

theorem get_decoration_registry:
  "(decoration_attr h f = None \<longrightarrow>
      decoration_of (snd (get_decoration f h)) f = Some (Decoration_init f) \<and>
      fst (get_decoration f h) = length (objects h)) \<and>
   engines (Decoration_init f) = [] \<and>
   custom_engines (Decoration_init f) = [] \<and>
   default_engine (Decoration_init f) = None \<and>
   validation (Decoration_init f) = None \<and>
   error_handler (Decoration_init f) = None \<and>
   map (\<lambda>n. map_of (hooks (Decoration_init f)) n) core_hook_names =
     [Some [], Some [], Some [], Some []] \<and>
   get_decoration f (snd (get_decoration f h)) = get_decoration f h \<and>
   (\<forall>a. decoration_attr h f = Some a \<longrightarrow>
      get_decoration f h = (a, h) \<and>
      (\<forall>g. decoration_attr (snd (get_decoration g h)) f = Some a) \<and>
      (\<forall>e g. decoration_attr (snd (expose_call e g h)) f = Some a) \<and>
      (\<forall>deco g. decoration_attr (snd (hook_decorator_call deco g h)) f = Some a)) \<and>
   (\<forall>g. decoration_attr (snd (get_decoration f h)) g \<noteq> Some (fst (get_decoration f h)) \<longrightarrow>
      decoration_of (snd (get_decoration f h)) g = decoration_of h g \<and>
      (\<forall>e. decoration_of (snd (expose_call e f h)) g = decoration_of h g) \<and>
      (\<forall>deco. decoration_of (snd (hook_decorator_call deco f h)) g = decoration_of h g)) \<and>
   heap_ok empty_heap \<and>
   (heap_ok h \<longrightarrow>
      (decoration_attr h f = None \<longrightarrow> fst (get_decoration f h) \<notin> ran (decoration_attr h)) \<and>
      (\<forall>g. g \<noteq> f \<longrightarrow>
         decoration_attr (snd (get_decoration f h)) g \<noteq> Some (fst (get_decoration f h))) \<and>
      heap_ok (snd (get_decoration f h)) \<and>
      (\<forall>e. heap_ok (snd (expose_call e f h))) \<and>
      (\<forall>deco. heap_ok (snd (hook_decorator_call deco f h))))"
proof -
  have first: "decoration_attr h f = None \<longrightarrow>
      decoration_of (snd (get_decoration f h)) f = Some (Decoration_init f) \<and>
      fst (get_decoration f h) = length (objects h)"
    using decoration_of_get_decoration_new [of h f] get_decoration_new [of h f] by simp
  have later: "\<forall>a. decoration_attr h f = Some a \<longrightarrow>
      get_decoration f h = (a, h) \<and>
      (\<forall>g. decoration_attr (snd (get_decoration g h)) f = Some a) \<and>
      (\<forall>e g. decoration_attr (snd (expose_call e g h)) f = Some a) \<and>
      (\<forall>deco g. decoration_attr (snd (hook_decorator_call deco g h)) f = Some a)"
    using get_decoration_known [of h f] decoration_attr_get_decoration_kept [of h f]
      decoration_attr_expose_call_kept [of h f] decoration_attr_hook_decorator_call_kept [of h f]
    by blast
  have apart: "\<forall>g. decoration_attr (snd (get_decoration f h)) g \<noteq> Some (fst (get_decoration f h)) \<longrightarrow>
      decoration_of (snd (get_decoration f h)) g = decoration_of h g \<and>
      (\<forall>e. decoration_of (snd (expose_call e f h)) g = decoration_of h g) \<and>
      (\<forall>deco. decoration_of (snd (hook_decorator_call deco f h)) g = decoration_of h g)"
    using decoration_of_get_decoration_apart [of f h] expose_call_apart [of f h]
      hook_decorator_call_apart [of f h]
    by blast
  have built: "heap_ok h \<longrightarrow>
      (decoration_attr h f = None \<longrightarrow> fst (get_decoration f h) \<notin> ran (decoration_attr h)) \<and>
      (\<forall>g. g \<noteq> f \<longrightarrow>
         decoration_attr (snd (get_decoration f h)) g \<noteq> Some (fst (get_decoration f h))) \<and>
      heap_ok (snd (get_decoration f h)) \<and>
      (\<forall>e. heap_ok (snd (expose_call e f h))) \<and>
      (\<forall>deco. heap_ok (snd (hook_decorator_call deco f h)))"
    using get_decoration_new_address [of h f] heap_ok_apart [of h _ f]
      heap_ok_get_decoration [of h f] heap_ok_expose_call [of h _ f]
      heap_ok_hook_decorator_call [of h _ f]
    by blast
  from first later apart built heap_ok_empty Decoration_init_fields [of f]
    get_decoration_again [of f h]
  show ?thesis by blast
qed

theorem get_decoration_registry_witness:
  "heap_ok empty_heap \<and>
   heap_ok (snd (get_decoration 1 empty_heap)) \<and>
   get_decoration 1 empty_heap =
     (0, \<lparr> decoration_attr = [1 \<mapsto> 0], objects = [Decoration_init 1] \<rparr>) \<and>
   get_decoration 1 (snd (get_decoration 1 empty_heap)) = (0, snd (get_decoration 1 empty_heap)) \<and>
   decoration_of (snd (get_decoration 1 empty_heap)) 1 = Some (Decoration_init 1) \<and>
   decoration_of (snd (expose_call json_expose 2 (snd (get_decoration 1 empty_heap)))) 1 =
     Some (Decoration_init 1) \<and>
   map_option engines (decoration_of (snd (expose_call json_expose 2 (snd (get_decoration 1 empty_heap)))) 2) =
     Some [(''application/json'', PStr ''json'', PStr [], PList [PStr ''tmpl_context''])]"
proof -
  let ?h1 = "snd (get_decoration 1 empty_heap)"
  note t0 = get_decoration_registry [of empty_heap 1]
  have fresh: "decoration_attr empty_heap 1 = None"
    by (simp add: empty_heap_def)
  have ok0: "heap_ok empty_heap"
    using t0 by blast
  have ok1: "heap_ok ?h1"
    using t0 ok0 by blast
  have first: "get_decoration 1 empty_heap =
     (0, \<lparr> decoration_attr = [1 \<mapsto> 0], objects = [Decoration_init 1] \<rparr>)"
    by (simp add: get_decoration_def empty_heap_def)
  have again: "get_decoration 1 ?h1 = (0, ?h1)"
    using t0 first by simp
  have mine: "decoration_of ?h1 1 = Some (Decoration_init 1)"
    using t0 fresh by blast
  note t1 = get_decoration_registry [of ?h1 2]
  have "(1::nat) \<noteq> 2" by simp
  with t1 ok1 have apart: "decoration_attr (snd (get_decoration 2 ?h1)) 1 \<noteq> Some (fst (get_decoration 2 ?h1))"
    by blast
  with t1 have "decoration_of (snd (expose_call json_expose 2 ?h1)) 1 = decoration_of ?h1 1"
    by blast
  with mine have other: "decoration_of (snd (expose_call json_expose 2 ?h1)) 1 = Some (Decoration_init 1)"
    by simp
  have its: "map_option engines (decoration_of (snd (expose_call json_expose 2 ?h1)) 2) =
     Some [(''application/json'', PStr ''json'', PStr [], PList [PStr ''tmpl_context''])]"
    by (simp add: get_decoration_def empty_heap_def decoration_of_def expose_call_def
        json_expose_def store_def register_template_engine_def Decoration_init_def Let_def)
  show ?thesis
    using ok0 ok1 first again mine other its by simp
qed

text \<open>
  The claim as stated fails for a function object built by \<open>decorator\<close>, as
  \<open>require.__call__\<close> returns: it starts with the attribute of the function it wraps.
  Here function 2 is the wrapper \<open>require\<close> returns for function 1: its first
  \<open>get_decoration\<close> creates nothing and returns the Decoration of function 1, and an
  engine registered on function 2 is registered on function 1.
\<close>

theorem get_decoration_counterexample:
  "get_decoration 2
     (snd (require_call (copying_decorator 2)
             (\<lparr> predicate = deny_all, denial_handler = None \<rparr> :: string require) 1
             (snd (get_decoration 1 empty_heap)))) =
     (0, snd (require_call (copying_decorator 2)
               (\<lparr> predicate = deny_all, denial_handler = None \<rparr> :: string require) 1
               (snd (get_decoration 1 empty_heap)))) \<and>
   decoration_of
     (snd (require_call (copying_decorator 2)
             (\<lparr> predicate = deny_all, denial_handler = None \<rparr> :: string require) 1
             (snd (get_decoration 1 empty_heap)))) 2 = Some (Decoration_init 1) \<and>
   map_option engines
     (decoration_of
        (snd (require_call (copying_decorator 2)
                (\<lparr> predicate = deny_all, denial_handler = None \<rparr> :: string require) 1
                (snd (get_decoration 1 empty_heap)))) 1) = Some [] \<and>
   map_option engines
     (decoration_of
        (snd (expose_call json_expose 2
           (snd (require_call (copying_decorator 2)
                   (\<lparr> predicate = deny_all, denial_handler = None \<rparr> :: string require) 1
                   (snd (get_decoration 1 empty_heap)))))) 1) =
     Some [(''application/json'', PStr ''json'', PStr [], PList [PStr ''tmpl_context''])]"
  by (simp add: require_call_def copying_decorator_def get_decoration_def empty_heap_def
        decoration_of_def expose_call_def json_expose_def store_def register_template_engine_def
        Decoration_init_def Let_def)

section \<open>validate\<close>

text \<open>
  Claim C5, as amended. Applying \<open>validate(validators=v, error_handler=h, form=f)\<close>
  to a function returns that function and sets the \<open>validation\<close> of its Decoration
  to the \<open>validate\<close> object, whose \<open>error_handler\<close> is \<open>h\<close> and whose \<open>validators\<close>
  is \<open>v\<close> when \<open>v\<close> is true, else \<open>f\<close> when \<open>f\<close> is true, and is not set at all when
  both are false. The Decorations of other functions are unchanged.
\<close>

theorem validate_registers:
  assumes "heap_ok h"
  shows "fst (validate_call (validate_init v eh form) f h) = f \<and>
         map_option validation (decoration_of (snd (validate_call (validate_init v eh form) f h)) f) =
           Some (Some (validate_init v eh form)) \<and>
         validate_error_handler (validate_init v eh form) = eh \<and>
         validators (validate_init v eh form) =
           (if truthy v then Some v else if truthy form then Some form else None) \<and>
         (\<forall>g. g \<noteq> f \<longrightarrow>
            decoration_of (snd (validate_call (validate_init v eh form) f h)) g = decoration_of h g)"
proof -
  obtain a h1 where gd: "get_decoration f h = (a, h1)" by (cases "get_decoration f h")
  have call: "validate_call (validate_init v eh form) f h =
                (f, store a ((objects h1 ! a)\<lparr> validation := Some (validate_init v eh form) \<rparr>) h1)"
    using gd by (simp add: validate_call_def)
  have "decoration_of (snd (validate_call (validate_init v eh form) f h)) g =
          (if g = f then Some ((objects h1 ! a)\<lparr> validation := Some (validate_init v eh form) \<rparr>)
           else decoration_of h g)" for g
    unfolding call using decoration_of_modify [OF assms gd] by simp
  then show ?thesis
    using call by (simp add: validate_init_def Let_def)
qed

theorem validate_registers_witness:
  "heap_ok empty_heap \<and>
   validate_call (validate_init (PDict [(''age'', PObj 5)]) (Some 9) PNone) 1 empty_heap =
     (1, \<lparr> decoration_attr = [1 \<mapsto> 0],
           objects = [(Decoration_init 1)\<lparr> validation :=
                        Some \<lparr> validators = Some (PDict [(''age'', PObj 5)]),
                                validate_error_handler = Some 9 \<rparr> \<rparr>] \<rparr>) \<and>
   validators (validate_init PNone (Some 9) (PObj 3)) = Some (PObj 3) \<and>
   validators (validate_init (PObj 4) (Some 9) (PObj 3)) = Some (PObj 4)"
  using validate_registers [OF heap_ok_empty, of "PDict [(''age'', PObj 5)]" "Some 9" PNone 1]
        validate_registers [OF heap_ok_empty, of PNone "Some 9" "PObj 3" 1]
        validate_registers [OF heap_ok_empty, of "PObj 4" "Some 9" "PObj 3" 1]
  by (simp add: heap_ok_empty)
    (simp add: validate_call_def validate_init_def get_decoration_def empty_heap_def store_def Let_def)

text \<open>
  The claim as stated fails for a false \<open>validators\<close> argument such as the empty
  dictionary: the object stored has no \<open>validators\<close> attribute.
\<close>

theorem validate_counterexample:
  "validators (validate_init (PDict []) (Some 9) PNone) = None \<and>
   map_option validation
     (decoration_of (snd (validate_call (validate_init (PDict []) (Some 9) PNone) 1 empty_heap)) 1) =
     Some (Some \<lparr> validators = None, validate_error_handler = Some 9 \<rparr>)"
  by (simp add: validate_call_def validate_init_def get_decoration_def empty_heap_def store_def
        decoration_of_def Let_def)

section \<open>Authorization\<close>

text \<open>
  Claim C1, as amended. When the predicate raises NotAuthorizedError, the action is
  not called (the result is the same whatever the action is) and the status code is
  403 if \<open>environ.get('repoze.who.identity')\<close> is true and 401 otherwise; a denial
  handler, when set, is called with the reason on a response whose status is that
  code, and otherwise \<open>abort\<close> is called with the code and the reason, which raises
  the HTTP error. When the predicate returns, the result is that of the action on the
  original arguments.
\<close>

theorem wrap_action_denial:
  "(\<forall>reason. predicate self (environ (request g)) = NotAuthorizedError reason \<longrightarrow>
      wrap_action self action args g =
        (let code = (if truthy (environ_get (environ (request g)) ''repoze.who.identity'')
                     then 403 else 401)
         in case denial_handler self of
              Some handler \<Rightarrow> handler reason (g\<lparr> response := (response g)\<lparr> status_int := code \<rparr> \<rparr>)
            | None \<Rightarrow> abort code reason g) \<and>
      (\<forall>other_action. wrap_action self other_action args g = wrap_action self action args g)) \<and>
   (\<forall>code reason. abort code reason g = (Raised (HTTPException code reason), g)) \<and>
   (predicate self (environ (request g)) = Authorized \<longrightarrow>
      wrap_action self action args g = action args g)"
  by (simp add: wrap_action_def denial_code_def abort_def Let_def)

theorem wrap_action_denial_witness:
  "wrap_action \<lparr> predicate = deny_all, denial_handler = Some reporting_handler \<rparr> echo_action ''args''
      (tgl_with_environ [''repoze.who.identity'' \<mapsto> PDict [(''repoze.who.userid'', PStr ''manager'')]]) =
     (Returned ''denied'',
      (tgl_with_environ [''repoze.who.identity'' \<mapsto> PDict [(''repoze.who.userid'', PStr ''manager'')]])
        \<lparr> response := \<lparr> status_int = 403, response_headers = Map.empty \<rparr> \<rparr>) \<and>
   wrap_action \<lparr> predicate = deny_all, denial_handler = None \<rparr> echo_action ''args''
      (tgl_with_environ Map.empty) =
     (Raised (HTTPException 401 ''denied''), tgl_with_environ Map.empty) \<and>
   wrap_action \<lparr> predicate = allow_all, denial_handler = None \<rparr> echo_action ''args''
      (tgl_with_environ Map.empty) =
     (Returned ''args'', tgl_with_environ Map.empty)"
  using wrap_action_denial
          [of "\<lparr> predicate = deny_all, denial_handler = Some reporting_handler \<rparr>"
              "tgl_with_environ [''repoze.who.identity'' \<mapsto> PDict [(''repoze.who.userid'', PStr ''manager'')]]"
              echo_action "''args''"]
        wrap_action_denial
          [of "\<lparr> predicate = deny_all, denial_handler = None \<rparr>" "tgl_with_environ Map.empty"
              echo_action "''args''"]
        wrap_action_denial
          [of "\<lparr> predicate = allow_all, denial_handler = None \<rparr>" "tgl_with_environ Map.empty"
              echo_action "''args''"]
  by (simp add: deny_all_def allow_all_def echo_action_def reporting_handler_def
        tgl_with_environ_def plain_tgl_def plain_request_def environ_get_def abort_def)

text \<open>
  The claim as stated fails for an environ that contains the key with a false value:
  the key is there and the code is 401.
\<close>

theorem wrap_action_counterexample:
  "environ (request (tgl_with_environ [''repoze.who.identity'' \<mapsto> PNone])) ''repoze.who.identity'' = Some PNone \<and>
   wrap_action \<lparr> predicate = deny_all, denial_handler = None \<rparr> echo_action ''args''
      (tgl_with_environ [''repoze.who.identity'' \<mapsto> PNone]) =
     (Raised (HTTPException 401 ''denied''), tgl_with_environ [''repoze.who.identity'' \<mapsto> PNone])"
  by (simp add: wrap_action_def denial_code_def abort_def environ_get_def deny_all_def
        tgl_with_environ_def plain_tgl_def plain_request_def)

text \<open>
  A \<open>require\<close> built without a denial handler uses \<open>default_denial_handler\<close>: it
  flashes the reason and aborts with the status the response then has.
\<close>

lemma require_default_denial:
  assumes "p (environ (request g)) = NotAuthorizedError reason"
  shows "wrap_action (require_init flash p None) action args g =
           (let g1 = g\<lparr> response := (response g)\<lparr> status_int := denial_code (environ (request g)) \<rparr> \<rparr>;
                g2 = flash reason (if denial_code (environ (request g)) = 401 then ''warning'' else ''error'') g1
            in (Raised (HTTPException (status_int (response g2)) reason), g2))"
  using assms
  by (simp add: wrap_action_def require_init_def default_denial_handler_def abort_def Let_def)

section \<open>Error pages\<close>

lemma eq_int_401: "eq_int 401 v \<longleftrightarrow> v = PInt 401"
  by (cases v) auto

lemma list_ex_eq_int_401: "list_ex (eq_int 401) codes \<longleftrightarrow> PInt 401 \<in> set codes"
  by (auto simp: list_ex_iff eq_int_401)

lemma no_auth_backend:
  "conf_get conf ''auth_backend'' PNone = PNone \<longleftrightarrow>
     conf ''auth_backend'' = None \<or> conf ''auth_backend'' = Some PNone"
  by (auto simp: conf_get_def split: option.splits)

text \<open>
  Claim C6. The defaults of the step are \<open>errorpage.enabled = True\<close> and
  \<open>errorpage.status_codes = [403, 404]\<close>. On a configuration whose status codes are
  a list, the before-config action appends 401 exactly when no \<open>auth_backend\<close> is
  configured (the key is absent or \<open>None\<close>) and 401 is not in the list, and leaves
  the configuration unchanged in every other case; every status code of the list is
  in the list afterwards.
\<close>

theorem configure_error_pages_codes:
  "map_of error_pages_get_defaults ''errorpage.enabled'' = Some (PBool True) \<and>
   map_of error_pages_get_defaults ''errorpage.status_codes'' = Some (PList [PInt 403, PInt 404]) \<and>
   (\<forall>codes. conf ''errorpage.status_codes'' = Some (PList codes) \<longrightarrow>
      ((conf ''auth_backend'' = None \<or> conf ''auth_backend'' = Some PNone) \<and> PInt 401 \<notin> set codes \<longrightarrow>
         configure_error_pages conf =
           Inr (conf(''errorpage.status_codes'' \<mapsto> PList (codes @ [PInt 401])))) \<and>
      (\<not> ((conf ''auth_backend'' = None \<or> conf ''auth_backend'' = Some PNone) \<and> PInt 401 \<notin> set codes) \<longrightarrow>
         configure_error_pages conf = Inr conf) \<and>
      (\<exists>conf' codes'. configure_error_pages conf = Inr conf' \<and>
         conf' ''errorpage.status_codes'' = Some (PList codes') \<and> set codes \<subseteq> set codes'))"
proof -
  have step: "configure_error_pages conf =
      (if (conf ''auth_backend'' = None \<or> conf ''auth_backend'' = Some PNone) \<and> PInt 401 \<notin> set codes
       then Inr (conf(''errorpage.status_codes'' \<mapsto> PList (codes @ [PInt 401])))
       else Inr conf)"
    if "conf ''errorpage.status_codes'' = Some (PList codes)" for codes
    using that
    by (simp add: configure_error_pages_def no_auth_backend int_in_def py_iter_def
          list_ex_eq_int_401)
  have defaults: "map_of error_pages_get_defaults ''errorpage.enabled'' = Some (PBool True)"
    "map_of error_pages_get_defaults ''errorpage.status_codes'' = Some (PList [PInt 403, PInt 404])"
    by (simp_all add: error_pages_get_defaults_def)
  have kept: "\<exists>conf' codes'. configure_error_pages conf = Inr conf' \<and>
         conf' ''errorpage.status_codes'' = Some (PList codes') \<and> set codes \<subseteq> set codes'"
    if "conf ''errorpage.status_codes'' = Some (PList codes)" for codes
    using step [OF that] that by auto
  show ?thesis
    using defaults step kept by simp
qed

theorem configure_error_pages_codes_witness:
  "configure_error_pages (map_of error_pages_get_defaults) =
     Inr ((map_of error_pages_get_defaults)
            (''errorpage.status_codes'' \<mapsto> PList [PInt 403, PInt 404, PInt 401])) \<and>
   configure_error_pages ((map_of error_pages_get_defaults)(''auth_backend'' \<mapsto> PStr ''sqlalchemy'')) =
     Inr ((map_of error_pages_get_defaults)(''auth_backend'' \<mapsto> PStr ''sqlalchemy'')) \<and>
   configure_error_pages [''errorpage.status_codes'' \<mapsto> PList [PInt 401, PInt 500]] =
     Inr [''errorpage.status_codes'' \<mapsto> PList [PInt 401, PInt 500]]"
  using configure_error_pages_codes [of "map_of error_pages_get_defaults"]
        configure_error_pages_codes
          [of "(map_of error_pages_get_defaults)(''auth_backend'' \<mapsto> PStr ''sqlalchemy'')"]
        configure_error_pages_codes [of "[''errorpage.status_codes'' \<mapsto> PList [PInt 401, PInt 500]]"]
  by (simp add: error_pages_get_defaults_def Let_def)

text \<open>No other entry of the configuration is touched.\<close>

lemma configure_error_pages_other_keys:
  assumes "configure_error_pages conf = Inr conf'" and "k \<noteq> ''errorpage.status_codes''"
  shows "conf' k = conf k"
  using assms
  by (auto simp: configure_error_pages_def split: if_splits option.splits sum.splits bool.splits)

section \<open>ToscaWidgets2 middleware\<close>

lemma set_shared_engines_of:
  "rearrangement set_order \<Longrightarrow>
   set (shared_engines_of set_order preferred rs) = set rs \<inter> set preferred"
  by (auto simp: rearrangement_def shared_engines_of_def)

lemma shared_engines_of_empty:
  assumes "rearrangement set_order"
  shows "shared_engines_of set_order preferred rs = [] \<longleftrightarrow> set rs \<inter> set preferred = {}"
  using set_shared_engines_of [OF assms, of preferred rs] by (metis set_empty)

lemma map_of_fold_update:
  "map_of (fold (\<lambda>kv. AList.update (fst kv) (snd kv)) other d) = map_of d ++ map_of (rev other)"
proof (induction other arbitrary: d)
  case Nil
  then show ?case by simp
next
  case (Cons kv other)
  obtain k v where kv: "kv = (k, v)" by (cases kv)
  have "map_of (fold (\<lambda>kv. AList.update (fst kv) (snd kv)) (kv # other) d) =
        (map_of d)(k \<mapsto> v) ++ map_of (rev other)"
    by (simp add: Cons.IH update_conv' kv fun_upd_def)
  also have "\<dots> = map_of d ++ map_of (rev (kv # other))"
    by (simp add: kv)
  finally show ?case .
qed

lemma map_of_dict_update:
  "map_of (dict_update d other) k =
     (case map_of (rev other) k of Some v \<Rightarrow> Some v | None \<Rightarrow> map_of d k)"
  by (simp add: dict_update_def map_of_fold_update map_add_def)

lemma update_and_wrap_dict:
  "update_and_wrap app d (PDict custom) = Inr (TwMiddleware app (dict_update d custom))"
  by (simp add: update_and_wrap_def)

lemma pair_of_error: "pair_of item = Inl e \<Longrightarrow> e = ValueError \<or> e = TypeError"
  by (induction item rule: pair_of.induct) auto

lemma pairs_of_error: "pairs_of items = Inl e \<Longrightarrow> e = ValueError \<or> e = TypeError"
proof (induction items)
  case Nil
  then show ?case by simp
next
  case (Cons item items)
  then show ?case
    by (auto split: sum.splits if_splits dest: pair_of_error)
qed

lemma update_and_wrap_error:
  "update_and_wrap app d custom = Inl e \<Longrightarrow> e = ValueError \<or> e = TypeError"
  by (cases custom)
    (auto simp: update_and_wrap_def py_iter_def split: sum.splits option.splits
          dest: pairs_of_error)

lemma update_and_wrap_not_TGConfigError:
  "update_and_wrap app d custom \<noteq> Inl TGConfigError"
  using update_and_wrap_error [of app d custom TGConfigError] by auto

lemma add_middleware_unfold:
  assumes "conf_get conf ''renderers'' (PList []) = PList rs" and "list_all hashable rs"
  shows "add_middleware set_order preferred ugettext get_lang conf app =
     (let shared_engines = shared_engines_of set_order preferred rs
      in if shared_engines = [] then Inl TGConfigError
         else
           (case conf ''debug'' of
              None \<Rightarrow> Inl KeyError
            | Some debug \<Rightarrow>
                update_and_wrap app
                          [(''default_engine'',
                              if conf_get conf ''default_renderer'' PNone \<in> set shared_engines
                              then conf_get conf ''default_renderer'' PNone else hd shared_engines),
                           (''preferred_rendering_engines'',
                              PList (if conf_get conf ''default_renderer'' PNone \<in> set shared_engines
                                     then conf_get conf ''default_renderer'' PNone # shared_engines
                                     else shared_engines)),
                           (''translator'', ugettext),
                           (''get_lang'', get_lang),
                           (''auto_reload_templates'',
                              conf_get conf ''auto_reload_templates'' (PBool False)),
                           (''controller_prefix'', PStr ''/tw2/controllers/''),
                           (''res_prefix'', PStr ''/tw2/resources/''),
                           (''debug'', debug),
                           (''rendering_extension_lookup'',
                              PDict [(''mako'', PList [PStr ''mak'', PStr ''mako'']),
                                     (''genshi'', PList [PStr ''genshi'', PStr ''html'']),
                                     (''jinja'', PList [PStr ''jinja'', PStr ''jinja2'']),
                                     (''kajiki'', PList [PStr ''kajiki'', PStr ''xhtml'', PStr ''xml''])])]
                          (conf_get conf ''custom_tw2_config'' (PDict []))))"
  using assms by (simp add: add_middleware_def py_iter_def Let_def split: option.splits)

text \<open>
  Claim C7, as amended. For configured renderers that are a list of hashable values:
  \<open>_add_middleware\<close> raises TGConfigError if and only if no configured renderer is
  among tw2's preferred rendering engines, and it returns a middleware only when one
  is. When one is, and the configuration has a \<open>debug\<close> entry and a dictionary (or
  nothing) as \<open>custom_tw2_config\<close>, it wraps the application in a TwMiddleware whose
  default engine is the \<open>default_engine\<close> of \<open>custom_tw2_config\<close> when that has one,
  and otherwise the configured \<open>default_renderer\<close> when that is a shared engine and
  the first shared engine when it is not.
\<close>

theorem add_middleware_default_engine:
  assumes "rearrangement set_order"
    and "conf_get conf ''renderers'' (PList []) = PList rs"
    and "list_all hashable rs"
  shows "(add_middleware set_order preferred ugettext get_lang conf app = Inl TGConfigError \<longleftrightarrow>
            set rs \<inter> set preferred = {}) \<and>
         (\<forall>mw. add_middleware set_order preferred ugettext get_lang conf app = Inr mw \<longrightarrow>
            set rs \<inter> set preferred \<noteq> {}) \<and>
         (\<forall>debug custom.
            set rs \<inter> set preferred \<noteq> {} \<and> conf ''debug'' = Some debug \<and>
            conf_get conf ''custom_tw2_config'' (PDict []) = PDict custom \<longrightarrow>
              (\<exists>cfg. add_middleware set_order preferred ugettext get_lang conf app =
                        Inr (TwMiddleware app cfg)) \<and>
              default_engine_of (add_middleware set_order preferred ugettext get_lang conf app) =
                (case map_of (rev custom) ''default_engine'' of
                   Some engine \<Rightarrow> Some engine
                 | None \<Rightarrow>
                     Some (if conf_get conf ''default_renderer'' PNone \<in> set rs \<inter> set preferred
                           then conf_get conf ''default_renderer'' PNone
                           else hd (shared_engines_of set_order preferred rs))) \<and>
              hd (shared_engines_of set_order preferred rs) \<in> set rs \<inter> set preferred)"
proof -
  let ?shared = "shared_engines_of set_order preferred rs"
  let ?r = "add_middleware set_order preferred ugettext get_lang conf app"
  note unfold = add_middleware_unfold [OF assms(2,3), of set_order preferred ugettext get_lang app]
  have set_shared: "set ?shared = set rs \<inter> set preferred"
    by (rule set_shared_engines_of [OF assms(1)])
  have empty: "?shared = [] \<longleftrightarrow> set rs \<inter> set preferred = {}"
    by (rule shared_engines_of_empty [OF assms(1)])
  have err: "?r = Inl TGConfigError \<longleftrightarrow> set rs \<inter> set preferred = {}"
    unfolding unfold Let_def using empty
    by (auto simp: update_and_wrap_not_TGConfigError split: option.splits)
  have ok: "set rs \<inter> set preferred \<noteq> {}" if "?r = Inr mw" for mw
    using that err unfolding unfold Let_def by (auto split: if_splits)
  have wrapped:
    "(\<exists>cfg. ?r = Inr (TwMiddleware app cfg)) \<and>
     default_engine_of ?r =
       (case map_of (rev custom) ''default_engine'' of
          Some engine \<Rightarrow> Some engine
        | None \<Rightarrow>
            Some (if conf_get conf ''default_renderer'' PNone \<in> set rs \<inter> set preferred
                  then conf_get conf ''default_renderer'' PNone
                  else hd ?shared)) \<and>
     hd ?shared \<in> set rs \<inter> set preferred"
    if ne: "set rs \<inter> set preferred \<noteq> {}" and dbg: "conf ''debug'' = Some debug"
      and cst: "conf_get conf ''custom_tw2_config'' (PDict []) = PDict custom"
    for debug custom
  proof -
    from ne empty have sne: "?shared \<noteq> []" by simp
    then have hd_in: "hd ?shared \<in> set rs \<inter> set preferred"
      using set_shared hd_in_set by blast
    show ?thesis
      unfolding unfold Let_def
      using sne dbg cst hd_in set_shared
      by (auto simp: default_engine_of_def map_of_dict_update update_and_wrap_dict
               split: option.splits)
  qed
  show ?thesis
    using err ok wrapped by blast
qed

lemma rearrangement_listed_order: "rearrangement listed_order"
  by (simp add: rearrangement_def listed_order_def)

theorem add_middleware_default_engine_witness:
  "rearrangement listed_order \<and>
   default_engine_of
     (add_middleware listed_order tw2_preferred (PObj 1) (PObj 2)
        [''renderers'' \<mapsto> PList [PStr ''json'', PStr ''genshi'', PStr ''mako''],
         ''default_renderer'' \<mapsto> PStr ''mako'', ''debug'' \<mapsto> PBool False] ''app'') =
     Some (PStr ''mako'') \<and>
   default_engine_of
     (add_middleware listed_order tw2_preferred (PObj 1) (PObj 2)
        [''renderers'' \<mapsto> PList [PStr ''json'', PStr ''genshi'', PStr ''mako''],
         ''default_renderer'' \<mapsto> PStr ''json'', ''debug'' \<mapsto> PBool False] ''app'') =
     Some (PStr ''genshi'') \<and>
   add_middleware listed_order tw2_preferred (PObj 1) (PObj 2)
     [''renderers'' \<mapsto> PList [PStr ''json''], ''debug'' \<mapsto> PBool False] ''app'' =
     Inl TGConfigError"
proof -
  let ?rs = "[PStr ''json'', PStr ''genshi'', PStr ''mako'']"
  let ?c1 = "[''renderers'' \<mapsto> PList ?rs, ''default_renderer'' \<mapsto> PStr ''mako'',
              ''debug'' \<mapsto> PBool False]"
  let ?c2 = "[''renderers'' \<mapsto> PList ?rs, ''default_renderer'' \<mapsto> PStr ''json'',
              ''debug'' \<mapsto> PBool False]"
  let ?c3 = "[''renderers'' \<mapsto> PList [PStr ''json''], ''debug'' \<mapsto> PBool False]"
  have h: "list_all hashable ?rs" "list_all hashable [PStr ''json'']" by simp_all
  have r1: "conf_get ?c1 ''renderers'' (PList []) = PList ?rs"
    and r2: "conf_get ?c2 ''renderers'' (PList []) = PList ?rs"
    and r3: "conf_get ?c3 ''renderers'' (PList []) = PList [PStr ''json'']"
    by (simp_all add: conf_get_def)
  have shared: "shared_engines_of listed_order tw2_preferred ?rs = [PStr ''genshi'', PStr ''mako'']"
    by (simp add: shared_engines_of_def listed_order_def tw2_preferred_def)
  have ne: "set ?rs \<inter> set tw2_preferred \<noteq> {}"
    by (simp add: tw2_preferred_def)
  have d1: "?c1 ''debug'' = Some (PBool False)" "conf_get ?c1 ''custom_tw2_config'' (PDict []) = PDict []"
    and d2: "?c2 ''debug'' = Some (PBool False)" "conf_get ?c2 ''custom_tw2_config'' (PDict []) = PDict []"
    by (simp_all add: conf_get_def)
  note t1 = add_middleware_default_engine
              [OF rearrangement_listed_order r1 h(1), of tw2_preferred "PObj 1" "PObj 2" "''app''"]
  note t2 = add_middleware_default_engine
              [OF rearrangement_listed_order r2 h(1), of tw2_preferred "PObj 1" "PObj 2" "''app''"]
  note t3 = add_middleware_default_engine
              [OF rearrangement_listed_order r3 h(2), of tw2_preferred "PObj 1" "PObj 2" "''app''"]
  have e1: "default_engine_of (add_middleware listed_order tw2_preferred (PObj 1) (PObj 2) ?c1 ''app'') =
              Some (PStr ''mako'')"
    using t1 ne d1 by (simp add: conf_get_def tw2_preferred_def)
  have e2: "default_engine_of (add_middleware listed_order tw2_preferred (PObj 1) (PObj 2) ?c2 ''app'') =
              Some (PStr ''genshi'')"
    using t2 ne d2 shared by (simp add: conf_get_def tw2_preferred_def)
  have e3: "add_middleware listed_order tw2_preferred (PObj 1) (PObj 2) ?c3 ''app'' = Inl TGConfigError"
    using t3 by (simp add: tw2_preferred_def)
  show ?thesis
    using rearrangement_listed_order e1 e2 e3 by simp
qed

text \<open>
  The claim as stated fails when \<open>custom_tw2_config\<close> has a \<open>default_engine\<close>: the
  custom entries are applied over the computed ones. Here the configured default
  renderer is a shared engine and the middleware's default engine is another.
\<close>

theorem add_middleware_counterexample:
  "set [PStr ''genshi'', PStr ''mako''] \<inter> set tw2_preferred \<noteq> {} \<and>
   PStr ''genshi'' \<in> set [PStr ''genshi'', PStr ''mako''] \<inter> set tw2_preferred \<and>
   default_engine_of
     (add_middleware listed_order tw2_preferred (PObj 1) (PObj 2)
        [''renderers'' \<mapsto> PList [PStr ''genshi'', PStr ''mako''],
         ''default_renderer'' \<mapsto> PStr ''genshi'',
         ''debug'' \<mapsto> PBool False,
         ''custom_tw2_config'' \<mapsto> PDict [(''default_engine'', PStr ''jinja'')]] ''app'') =
     Some (PStr ''jinja'')"
  by (simp add: add_middleware_def py_iter_def conf_get_def shared_engines_of_def
        listed_order_def tw2_preferred_def default_engine_of_def dict_update_def
        update_and_wrap_def Let_def)

text \<open>
  Values of \<open>custom_tw2_config\<close> that are no dictionary: an empty list changes
  nothing, a list of pairs is applied like a dictionary, and a string that is not
  empty is rejected by \<open>update\<close> with ValueError.
\<close>

lemma update_and_wrap_sequences:
  "update_and_wrap ''app'' [(''debug'', PBool False)] (PList []) =
     Inr (TwMiddleware ''app'' [(''debug'', PBool False)]) \<and>
   update_and_wrap ''app'' [(''debug'', PBool False)]
       (PList [PList [PStr ''debug'', PBool True]]) =
     Inr (TwMiddleware ''app'' [(''debug'', PBool True)]) \<and>
   update_and_wrap ''app'' [(''debug'', PBool False)] (PStr ''ab'') = Inl ValueError \<and>
   update_and_wrap ''app'' [(''debug'', PBool False)] PNone = Inl TypeError"
  by (simp add: update_and_wrap_def py_iter_def dict_update_def)

section \<open>Pagination parameters\<close>

lemma read_page_scalar:
  assumes "int_accepts v"
  shows "\<exists>page. read_page parse v = Inr page \<and> 1 \<le> page"
  using assms
  by (cases v) (auto simp: read_page_def py_int_def int_accepts_def split: option.splits)

lemma read_page_result: "read_page parse v = Inr page \<Longrightarrow> 1 \<le> page"
  by (cases v)
    (auto simp: read_page_def py_int_def split: option.splits if_splits sum.splits exn.splits)

lemma read_page_error: "read_page parse v = Inl e \<Longrightarrow> e = TypeError \<and> \<not> int_accepts v"
  by (cases v)
    (auto simp: read_page_def py_int_def int_accepts_def split: option.splits if_splits)

lemma read_items_per_page_scalar:
  assumes "int_accepts v"
  shows "\<exists>n. read_items_per_page parse self v = Inr n"
  using assms
  by (cases v)
    (auto simp: read_items_per_page_def py_int_def int_accepts_def Let_def split: option.splits)

lemma read_items_per_page_capped:
  assumes "max_items_per_page self = 0" and "read_items_per_page parse self v = Inr n"
  shows "n = items_per_page self"
  using assms
  by (cases v)
    (auto simp: read_items_per_page_def py_int_def Let_def min_def
          split: option.splits if_splits sum.splits exn.splits)

lemma read_items_per_page_error:
  "read_items_per_page parse self v = Inl e \<Longrightarrow> e = TypeError \<and> \<not> int_accepts v"
  by (cases v)
    (auto simp: read_items_per_page_def py_int_def int_accepts_def Let_def
          split: option.splits if_splits)

text \<open>
  When the raw \<open>page\<close> and \<open>items_per_page\<close> parameters are absent, false,
  strings, integers or booleans, \<open>before_validate\<close> returns: the page stored is at
  least 1, with \<open>max_items_per_page = 0\<close> the page size stored is the configured
  one, and both parameters are gone from \<open>params\<close>.
\<close>

lemma before_validate_scalar:
  assumes "int_accepts (dict_get params (page_param self))"
    and "int_accepts (dict_get (AList.delete (page_param self) params) (items_per_page_param self))"
  shows "\<exists>params' req' b page n.
           before_validate parse self params req = (None, params', req') \<and>
           paginator_of req' (paginate_name self) = Some b \<and>
           paginate_page b = Some page \<and> 1 \<le> page \<and>
           paginate_items_per_page b = Some n \<and>
           (max_items_per_page self = 0 \<longrightarrow> n = items_per_page self) \<and>
           map_of params' (page_param self) = None \<and>
           map_of params' (items_per_page_param self) = None"
proof -
  obtain page where page: "read_page parse (dict_get params (page_param self)) = Inr page"
    and pos: "1 \<le> page"
    using read_page_scalar [OF assms(1)] by blast
  obtain n where n: "read_items_per_page parse self
        (dict_get (AList.delete (page_param self) params) (items_per_page_param self)) = Inr n"
    using read_items_per_page_scalar [OF assms(2)] by blast
  have cap: "max_items_per_page self = 0 \<longrightarrow> n = items_per_page self"
    using read_items_per_page_capped [OF _ n] by simp
  have gone: "map_of (AList.delete (items_per_page_param self) (AList.delete (page_param self) params)) k = None"
    if "k = page_param self \<or> k = items_per_page_param self" for k
    using that by (auto simp: delete_conv')
  show ?thesis
    using page pos n cap gone
    by (simp add: before_validate_def Let_def paginator_of_def update_conv')
qed

text \<open>
  Claim C9 says that every \<open>page\<close> parameter that is not an integer yields page 1.
  The \<open>try\<close> block catches ValueError only: for a \<open>page\<close> parameter that is a list
  (a repeated query parameter, or the output of \<open>variable_decode\<close>), \<open>int\<close> raises
  TypeError, which leaves \<open>before_validate\<close> with no paginator stored.
\<close>

theorem before_validate_page_list:
  "before_validate digits_only (paginate_init ''entries'' False 10 0)
      [(''page'', PList [PStr ''1'', PStr ''2''])] plain_request =
     (Some TypeError, [], plain_request)"
  by (simp add: before_validate_def paginate_init_def read_page_def py_int_def dict_get_def Let_def)

text \<open>
  Claim C8 says that with \<open>max_items_per_page = 0\<close> every value of the
  \<open>items_per_page\<close> parameter leaves the configured page size stored. For a list the
  same uncaught TypeError leaves a paginator without \<open>paginate_items_per_page\<close>.
\<close>

theorem before_validate_items_per_page_list:
  "before_validate digits_only (paginate_init ''entries'' False 10 0)
      [(''items_per_page'', PList [PStr ''5'', PStr ''6''])] plain_request =
     (Some TypeError, [],
      plain_request\<lparr> paginators :=
        Some \<lparr> tg_paginators_params = [(''page'', PNone)],
               bunches = [(''entries'', \<lparr> paginate_page = Some 1, paginate_items_per_page = None,
                                            paginate_params = None \<rparr>)] \<rparr> \<rparr>)"
  by (simp add: before_validate_def paginate_init_def read_page_def read_items_per_page_def
        py_int_def dict_get_def plain_request_def Let_def)

text \<open>
  The path the code does handle: a string that is no number gives page 1, and a page
  size above the maximum gives the configured one.
\<close>

lemma before_validate_sibling_path:
  "before_validate digits_only (paginate_init ''entries'' False 10 0)
      [(''page'', PStr ''first''), (''items_per_page'', PStr ''500'')] plain_request =
     (None, [],
      plain_request\<lparr> paginators :=
        Some \<lparr> tg_paginators_params = [(''page'', PStr ''first'')],
               bunches = [(''entries'', \<lparr> paginate_page = Some 1, paginate_items_per_page = Some 10,
                                            paginate_params = Some [(''page'', PStr ''first'')] \<rparr>)] \<rparr> \<rparr>)"
  by (simp add: before_validate_def paginate_init_def read_page_def read_items_per_page_def
        py_int_def dict_get_def dict_update_def plain_request_def digits_only_def Let_def)

end
